theory Spec2Isabelle
  imports Complex_Main "HOL-Library.Sublist" "HOL-Library.Log_Nat"
begin

section \<open>Conventions of the embedding\<close>

text \<open>
  The development embeds the agentic workflow engine (configuration holder, content
  templaters, capability agents, demo orchestrator) and the BMI endpoint.

  \<^item> A Python \<open>str\<close> is a \<^typ>\<open>string\<close>; each \<^typ>\<open>char\<close> stands for one code point
    below 256, so the theorems speak about strings over this range.
  \<^item> The BMI endpoint computes with Python's \<open>float\<close>, which is modelled as the binary64
    format with its rounding, its infinities and its NaN. The agents only store and
    pass on their floats (temperatures, confidences), which stand as the rational
    (\<^typ>\<open>rat\<close>) that their literal denotes.
  \<^item> An exception is a value: a function that may raise returns \<open>error + 'a\<close>, and a
    method that mutates an object before it raises returns the object as well.
  \<^item> Printing and the artificial delays (\<open>asyncio.sleep\<close>) are not part of any result
    and are left out.
  \<^item> What the outside world decides (environment variables, the answer of the remote
    API, the clock, the MD5 digest of the standard library) is an argument of the
    function that uses it.
\<close>

datatype error =
    InvalidAPIKeyError
  | UnsupportedModelError
  | ModelInitializationError
  | ResearchAgentError
  | WriterAgentError
  | ImageAgentError
  | ValidationError
  | AttributeError
  | TypeError
  | ZeroDivisionError
  | OverflowError

section \<open>Configuration holder (\<open>src/config/ai_models_config.py\<close>)\<close>

datatype AIProvider = SIMULATION | OPENAI | ANTHROPIC | GOOGLE

fun provider_value :: "AIProvider \<Rightarrow> string" where
  "provider_value SIMULATION = ''simulation''"
| "provider_value OPENAI = ''openai''"
| "provider_value ANTHROPIC = ''anthropic''"
| "provider_value GOOGLE = ''google''"

text \<open>
  A capability's configuration dictionary: the keys \<open>model\<close> and \<open>simulation_mode\<close>
  that all three share, and the generation parameters of the chat capabilities and of
  the image capability. \<open>config.get("model")\<close> may give \<open>None\<close>, hence the option; the
  image keys \<open>size\<close> and \<open>quality\<close> carry a prefix here.
\<close>

record model_config =
  model :: "string option"
  simulation_mode :: bool

record chat_config = model_config +
  max_completion_tokens :: nat
  temperature :: rat

record image_model_config = model_config +
  image_size :: string
  image_quality :: string

record ai_config =
  provider :: AIProvider
  api_keys :: "string \<Rightarrow> string option"
  research_config :: chat_config
  writing_config :: chat_config
  image_config :: image_model_config

text \<open>\<open>SUPPORTED_MODELS["openai"]\<close>, indexed by model type.\<close>

definition SUPPORTED_MODELS :: "string \<Rightarrow> string list" where
  "SUPPORTED_MODELS model_type =
     (if model_type = ''chat'' then [''gpt-4-1106-preview'', ''gpt-4'', ''gpt-3.5-turbo'']
      else if model_type = ''image'' then [''dall-e-3'', ''dall-e-2'']
      else [])"

text \<open>
  \<open>_validate_model_config\<close>: nothing is checked in simulation mode; otherwise a missing or
  empty model, and a model outside the allowlist, raise \<open>UnsupportedModelError\<close>.
\<close>

definition validate_model_config :: "string \<Rightarrow> 'a model_config_scheme \<Rightarrow> error + unit" where
  "validate_model_config agent_type config =
     (if \<not> simulation_mode config then
        (case model config of
           None \<Rightarrow> Inl UnsupportedModelError
         | Some m \<Rightarrow>
             if m = [] then Inl UnsupportedModelError
             else
               let model_type = (if agent_type = ''image'' then ''image'' else ''chat'')
               in if m \<notin> set (SUPPORTED_MODELS model_type)
                  then Inl UnsupportedModelError
                  else Inr ())
      else Inr ())"

text \<open>\<open>_validate_configs\<close>: research, writing, image, in this order; the first error wins.\<close>

definition validate_configs :: "ai_config \<Rightarrow> error + unit" where
  "validate_configs c =
     (case validate_model_config ''research'' (research_config c) of
        Inl e \<Rightarrow> Inl e
      | Inr _ \<Rightarrow>
          (case validate_model_config ''writing'' (writing_config c) of
             Inl e \<Rightarrow> Inl e
           | Inr _ \<Rightarrow> validate_model_config ''image'' (image_config c)))"

text \<open>
  \<open>AIConfig.__init__\<close>: the credentials are read from the environment (\<open>os.getenv\<close>, here
  the map \<open>env\<close>), every capability starts in simulation mode with its default model, and
  the configuration is validated before the constructor returns.
\<close>

definition default_config :: "(string \<Rightarrow> string option) \<Rightarrow> ai_config" where
  "default_config env =
     \<lparr> provider = SIMULATION,
       api_keys = (\<lambda>k. if k = ''openai'' then env ''OPENAI_API_KEY''
                        else if k = ''anthropic'' then env ''ANTHROPIC_API_KEY''
                        else if k = ''google'' then env ''GOOGLE_AI_API_KEY''
                        else None),
       research_config = \<lparr> model = Some ''gpt-4-1106-preview'', simulation_mode = True,
                           max_completion_tokens = 1500, temperature = 3 / 10 \<rparr>,
       writing_config = \<lparr> model = Some ''gpt-4-1106-preview'', simulation_mode = True,
                          max_completion_tokens = 2000, temperature = 7 / 10 \<rparr>,
       image_config = \<lparr> model = Some ''dall-e-3'', simulation_mode = True,
                        image_size = ''1024x1024'', image_quality = ''standard'' \<rparr> \<rparr>"

definition AIConfig_init :: "(string \<Rightarrow> string option) \<Rightarrow> error + ai_config" where
  "AIConfig_init env =
     (let c = default_config env
      in case validate_configs c of Inl e \<Rightarrow> Inl e | Inr _ \<Rightarrow> Inr c)"

text \<open>\<open>key.startswith(p)\<close>.\<close>

definition startswith :: "string \<Rightarrow> string \<Rightarrow> bool" where
  "startswith s p = (take (length p) s = p)"

text \<open>
  \<open>has_valid_api_key\<close>: a key must be registered and non-empty (\<open>not key\<close>), have at least
  20 characters, and carry the provider's prefix where one is defined.
\<close>

definition has_valid_api_key :: "ai_config \<Rightarrow> AIProvider \<Rightarrow> bool" where
  "has_valid_api_key c p =
     (case api_keys c (provider_value p) of
        None \<Rightarrow> False
      | Some key \<Rightarrow>
          if key = [] then False
          else if length key < 20 then False
          else if p = OPENAI \<and> \<not> (startswith key ''sk-'' \<or> startswith key ''org-'') then False
          else if p = ANTHROPIC \<and> \<not> startswith key ''sk-ant-'' then False
          else True)"

text \<open>
  \<open>enable_real_ai\<close>. The credential is checked first and nothing is touched when it fails.
  Otherwise the provider and the three simulation flags are assigned, and only then is
  the configuration validated: an error of that validation leaves the assignments in
  place, so the configuration is returned next to the outcome.
\<close>

definition enable_real_ai :: "AIProvider \<Rightarrow> ai_config \<Rightarrow> (error + unit) \<times> ai_config" where
  "enable_real_ai p c =
     (if \<not> has_valid_api_key c p then (Inl InvalidAPIKeyError, c)
      else
        let c' = c\<lparr> provider := p,
                    research_config := (research_config c)\<lparr> simulation_mode := False \<rparr>,
                    writing_config := (writing_config c)\<lparr> simulation_mode := False \<rparr>,
                    image_config := (image_config c)\<lparr> simulation_mode := False \<rparr> \<rparr>
        in (validate_configs c', c'))"

text \<open>
  The public operations on a configuration after its construction, and a run of them.
  \<open>has_valid_api_key\<close> is a query and leaves the configuration as it is; an exception of
  \<open>enable_real_ai\<close> does not end the process, the caller can go on with the object.
\<close>

datatype config_op = EnableRealAI AIProvider | HasValidApiKey AIProvider

fun apply_config_op :: "ai_config \<Rightarrow> config_op \<Rightarrow> ai_config" where
  "apply_config_op c (EnableRealAI p) = snd (enable_real_ai p c)"
| "apply_config_op c (HasValidApiKey p) = c"

definition run_config_ops :: "ai_config \<Rightarrow> config_op list \<Rightarrow> ai_config" where
  "run_config_ops c ops = foldl apply_config_op c ops"

text \<open>Every capability's model lies in the allowlist of its model type.\<close>

definition models_supported :: "ai_config \<Rightarrow> bool" where
  "models_supported c =
     (case (model (research_config c), model (writing_config c), model (image_config c)) of
        (Some r, Some w, Some i) \<Rightarrow>
          r \<in> set (SUPPORTED_MODELS ''chat'') \<and>
          w \<in> set (SUPPORTED_MODELS ''chat'') \<and>
          i \<in> set (SUPPORTED_MODELS ''image'')
      | _ \<Rightarrow> False)"

section \<open>Text primitives of Python\<close>

text \<open>
  \<open>str.isspace\<close> on one character: the white-space code points below 256 (tab to carriage
  return, the four separators \<open>0x1C\<close> to \<open>0x1F\<close>, space, next line, no-break space).
\<close>

definition isspace :: "char \<Rightarrow> bool" where
  "isspace c =
     (c \<in> set [CHR 0x09, CHR 0x0A, CHR 0x0B, CHR 0x0C, CHR 0x0D,
                CHR 0x1C, CHR 0x1D, CHR 0x1E, CHR 0x1F, CHR 0x20, CHR 0x85, CHR 0xA0])"

text \<open>
  \<open>s.split()\<close>: the maximal runs of characters that are not white space, in order.
  \<open>split_from w cs\<close> scans \<open>cs\<close> with the word \<open>w\<close> read so far.
\<close>

fun split_from :: "string \<Rightarrow> string \<Rightarrow> string list" where
  "split_from w [] = (if w = [] then [] else [w])"
| "split_from w (c # cs) =
     (if isspace c then (if w = [] then split_from [] cs else w # split_from [] cs)
      else split_from (w @ [c]) cs)"

definition py_split :: "string \<Rightarrow> string list" where
  "py_split s = split_from [] s"

text \<open>
  The number of words \<open>split_from\<close> finds, counted without building them: \<open>inw\<close> tells
  whether a word is being read, \<open>n\<close> is the number of words already closed.
\<close>

fun count_from :: "bool \<Rightarrow> string \<Rightarrow> nat \<Rightarrow> nat" where
  "count_from inw [] n = (if inw then Suc n else n)"
| "count_from inw (c # cs) n =
     (if isspace c then count_from False cs (if inw then Suc n else n) else count_from True cs n)"

text \<open>\<open>s.strip()\<close>.\<close>

definition py_strip :: "string \<Rightarrow> string" where
  "py_strip s = rev (dropWhile isspace (rev (dropWhile isspace s)))"

text \<open>\<open>s.lower()\<close> on the code points below 256: the letters A to Z and the upper-case
  letters of the Latin-1 block move up by 32.\<close>

definition py_lower_char :: "char \<Rightarrow> char" where
  "py_lower_char c =
     (let n = (of_char c :: nat)
      in if (65 \<le> n \<and> n \<le> 90) \<or> (192 \<le> n \<and> n \<le> 222 \<and> n \<noteq> 215)
         then char_of (n + 32) else c)"

definition py_lower :: "string \<Rightarrow> string" where
  "py_lower s = map py_lower_char s"

text \<open>\<open>sep.join(xs)\<close>.\<close>

fun py_join :: "string \<Rightarrow> string list \<Rightarrow> string" where
  "py_join sep [] = []"
| "py_join sep [x] = x"
| "py_join sep (x # y # ys) = x @ sep @ py_join sep (y # ys)"

text \<open>The lines of a multi-line literal, joined by the newline character.\<close>

definition text_lines :: "string list \<Rightarrow> string" where
  "text_lines ls = py_join [CHR 0x0A] ls"

section \<open>Content templater (\<open>src/config/ai_models_config.py\<close>)\<close>

text \<open>
  A research brief: the keys of the dictionary that \<open>get_enhanced_writing_content\<close> and the
  writer read (the key \<open>keywords\<close> is the field \<open>keyword_list\<close>). The research result
  and the writer's request extend it.
\<close>

record brief =
  title :: string
  executive_summary :: string
  key_points :: "string list"
  keyword_list :: "string list"

record research_result = brief +
  research_confidence :: rat
  methodology :: string

definition get_enhanced_research_content :: "string \<Rightarrow> research_result" where
  "get_enhanced_research_content topic =
     \<lparr> title = ''Strategic Analysis: '' @ topic,
       executive_summary =
         ''Comprehensive analysis of '' @ topic @
         '' reveals significant opportunities for innovation and market growth. Key technological advances and changing user behaviors are creating new possibilities for disruption and value creation.'',
       key_points =
         [''Market adoption of '' @ topic @ '' technologies accelerating 45% faster than predicted'',
          ''Regulatory environment increasingly supportive with new frameworks'',
          ''Supply chain optimization creating 30-35% cost reduction opportunities'',
          ''Consumer trust metrics showing 82% positive sentiment'',
          ''Investment surge with $3.8B in new funding across sector''],
       keyword_list =
         [py_lower topic,
          ''innovation'',
          ''market growth'',
          ''technology'',
          ''digital transformation'',
          ''strategic analysis''],
       research_confidence = 926 / 1000,
       methodology = ''Multi-source analysis with AI-powered synthesis'' \<rparr>"

text \<open>
  The article skeleton of \<open>get_enhanced_writing_content\<close>: the literal text of its
  f-string, cut at the three interpolations (title, summary, list items).
\<close>

definition article_part_1 :: string where
  \<open>article_part_1 = text_lines
     ['''',
      ''    <h1>'']\<close>

definition article_part_2 :: string where
  \<open>article_part_2 = text_lines
     [''</h1>'',
      ''    '',
      ''    <div class="executive-summary">'',
      ''        <p>'']\<close>

definition article_part_3 :: string where
  \<open>article_part_3 = text_lines
     [''</p>'',
      ''    </div>'',
      ''    '',
      ''    <h2>Key Strategic Insights</h2>'',
      ''    <div class="key-insights">'',
      ''        <ul>'',
      ''            '']\<close>

definition article_part_4 :: string where
  \<open>article_part_4 = text_lines
     ['''',
      ''        </ul>'',
      ''    </div>'',
      ''    '',
      ''    <h2>Detailed Analysis</h2>'',
      ''    <p>Our comprehensive analysis reveals a rapidly evolving landscape with significant implications for industry leaders and innovators alike. The convergence of technological advancement and market demand is creating unprecedented opportunities for organizations that can effectively navigate this transformation.</p>'',
      ''    '',
      ''    <h2>Market Dynamics</h2>'',
      ''    <p>The market is experiencing accelerated growth, driven by several key factors:</p>'',
      ''    <ul>'',
      ''        <li>Technological Innovation: Rapid advancement in core technologies</li>'',
      ''        <li>Market Demand: Growing user sophistication and expectations</li>'',
      ''        <li>Regulatory Support: Favorable policy frameworks emerging globally</li>'',
      ''        <li>Investment Climate: Strong venture capital and corporate interest</li>'',
      ''    </ul>'',
      ''    '',
      ''    <h2>Strategic Recommendations</h2>'',
      ''    <p>Organizations should consider the following strategic initiatives:</p>'',
      ''    <ol>'',
      ''        <li>Invest in technological capabilities and infrastructure</li>'',
      ''        <li>Build strategic partnerships across the ecosystem</li>'',
      ''        <li>Focus on user experience and trust-building</li>'',
      ''        <li>Develop clear regulatory compliance frameworks</li>'',
      ''    </ol>'',
      ''    '',
      ''    <h2>Conclusion</h2>'',
      ''    <p>The evolution of this space presents both challenges and opportunities. Organizations that can effectively leverage these insights while maintaining agility and innovation focus will be best positioned for success in this dynamic environment.</p>'',
      ''    '']\<close>

definition get_enhanced_writing_content :: "'a brief_scheme \<Rightarrow> string" where
  "get_enhanced_writing_content brief =
     article_part_1 @ title brief @
     article_part_2 @ executive_summary brief @
     article_part_3 @ concat (map (\<lambda>point. ''<li>'' @ point @ ''</li>'') (key_points brief)) @
     article_part_4"

section \<open>Capability agents (\<open>src/agents\<close>)\<close>

text \<open>
  What a call of the remote API does: it raises (network, authentication, anything the
  client library throws), or it returns a value.
\<close>

datatype 'a api_result = ApiRaises | ApiReturns 'a

text \<open>
  The part of an agent object that \<open>process\<close> changes: whether \<open>self.openai_client\<close> is set.
  \<open>self.model_config\<close> is the capability's dictionary of the global configuration (the
  same object), so the agents read it from the configuration they are given. The
  constructor only checks that the dictionary has its keys, which the records here
  always have.
\<close>

record agent =
  openai_client :: bool

text \<open>
  \<open>get_model_info\<close> of \<open>base.py\<close>. Each \<open>process\<close> calls it for its first log line, after
  the request has been validated and before the \<open>try\<close> block, so what it raises reaches
  the caller. In simulation mode the text is fixed. Otherwise \<open>'o4-mini' in model\<close> is
  evaluated, which raises \<open>TypeError\<close> when the \<open>model\<close> entry is \<open>None\<close>; a model without
  that substring is shown with the temperature, read with the default 0.5 that a
  dictionary without this key (the image capability's) takes. The text is given by its
  parts; \<open>temp\<close> is the \<open>temperature\<close> entry of the dictionary, if it has one.
\<close>

datatype model_info =
    SimulationInfo
  | ModelInfo string
  | ModelTemperatureInfo string rat

definition get_model_info :: "'a model_config_scheme \<Rightarrow> rat option \<Rightarrow> error + model_info" where
  "get_model_info cfg temp =
     (if simulation_mode cfg then Inr SimulationInfo
      else
        (case model cfg of
           None \<Rightarrow> Inl TypeError
         | Some m \<Rightarrow>
             if sublist ''o4-mini'' m then Inr (ModelInfo m)
             else Inr (ModelTemperatureInfo m (case temp of None \<Rightarrow> 1 / 2 | Some t \<Rightarrow> t))))"

text \<open>
  \<open>_init_openai_client\<close>, the same in the three agents. \<open>ctor_ok\<close> tells whether the
  constructor of the API client succeeds; its exception becomes \<open>ModelInitializationError\<close>.
\<close>

definition init_openai_client :: "ai_config \<Rightarrow> bool \<Rightarrow> agent \<Rightarrow> (error + unit) \<times> agent" where
  "init_openai_client c ctor_ok a =
     (if \<not> openai_client a \<and> has_valid_api_key c OPENAI then
        (if ctor_ok then (Inr (), a\<lparr> openai_client := True \<rparr>)
         else (Inl ModelInitializationError, a))
      else (Inr (), a))"

subsection \<open>Research agent (\<open>research.py\<close>)\<close>

text \<open>
  The dictionary passed to \<open>process\<close>, as far as \<open>ResearchRequest(**message)\<close> reads it:
  \<open>None\<close> stands for an absent key. A value of the wrong Python type is outside this
  model.
\<close>

record research_message =
  topic_arg :: "string option"
  depth_arg :: "int option"

record ResearchRequest =
  topic :: string
  depth :: int

text \<open>Request validation: \<open>topic\<close> is required, \<open>depth\<close> defaults to 1 and lies in 1..3.\<close>

definition ResearchRequest_init :: "research_message \<Rightarrow> error + ResearchRequest" where
  "ResearchRequest_init m =
     (case topic_arg m of
        None \<Rightarrow> Inl ValidationError
      | Some t \<Rightarrow>
          let d = (case depth_arg m of None \<Rightarrow> 1 | Some d \<Rightarrow> d)
          in if 1 \<le> d \<and> d \<le> 3 then Inr \<lparr> topic = t, depth = d \<rparr>
             else Inl ValidationError)"

text \<open>
  The JSON object in the answer of the API, as \<open>ResearchResponse(**result)\<close> reads it; a
  key that is absent or holds a value of the wrong type is \<open>None\<close>.
\<close>

record research_json =
  json_title :: "string option"
  json_executive_summary :: "string option"
  json_key_points :: "string list option"
  json_keywords :: "string list option"
  json_research_confidence :: "rat option"
  json_methodology :: "string option"

datatype json_content = NotJSON | JSONObject research_json

text \<open>
  \<open>ResearchResponse\<close>: every field is required, at least three key points, at least one
  keyword, a confidence between 0 and 1.
\<close>

definition ResearchResponse_init :: "research_json \<Rightarrow> error + research_result" where
  "ResearchResponse_init j =
     (case (json_title j, json_executive_summary j, json_key_points j,
            json_keywords j, json_research_confidence j, json_methodology j) of
        (Some t, Some s, Some kp, Some kw, Some conf, Some m) \<Rightarrow>
          if 3 \<le> length kp \<and> 1 \<le> length kw \<and> 0 \<le> conf \<and> conf \<le> 1
          then Inr \<lparr> title = t, executive_summary = s, key_points = kp, keyword_list = kw,
                     research_confidence = conf, methodology = m \<rparr>
          else Inl ValidationError
      | _ \<Rightarrow> Inl ValidationError)"

text \<open>
  \<open>ResearchAgent._call_real_ai\<close>: without a client it raises \<open>ModelInitializationError\<close>;
  a failing call, an answer that is not JSON and an answer of the wrong shape all end as
  \<open>ResearchAgentError\<close>.
\<close>

definition ResearchAgent_call_real_ai ::
  "agent \<Rightarrow> json_content api_result \<Rightarrow> error + research_result" where
  "ResearchAgent_call_real_ai a api =
     (if \<not> openai_client a then Inl ModelInitializationError
      else case api of
             ApiRaises \<Rightarrow> Inl ResearchAgentError
           | ApiReturns NotJSON \<Rightarrow> Inl ResearchAgentError
           | ApiReturns (JSONObject j) \<Rightarrow>
               (case ResearchResponse_init j of
                  Inl _ \<Rightarrow> Inl ResearchAgentError
                | Inr r \<Rightarrow> Inr r))"

text \<open>
  The \<open>try\<close> block of \<open>ResearchAgent.process\<close>: \<open>Inl e\<close> when it raises \<open>e\<close>, \<open>Inr None\<close>
  when it ends without a client, \<open>Inr (Some r)\<close> when it returns \<open>r\<close>.
\<close>

definition ResearchAgent_try_real ::
  "ai_config \<Rightarrow> bool \<Rightarrow> json_content api_result \<Rightarrow> agent \<Rightarrow> ResearchRequest
     \<Rightarrow> (error + research_result option) \<times> agent" where
  "ResearchAgent_try_real c ctor_ok api a request =
     (case init_openai_client c ctor_ok a of
        (Inl e, a') \<Rightarrow> (Inl e, a')
      | (Inr _, a') \<Rightarrow>
          if openai_client a' then
            (case ResearchAgent_call_real_ai a' api of
               Inl e \<Rightarrow> (Inl e, a')
             | Inr r \<Rightarrow> (Inr (Some r), a'))
          else (Inr None, a'))"

text \<open>
  \<open>ResearchAgent.process\<close>. An invalid request raises \<open>ResearchAgentError\<close>. The log line
  that follows calls \<open>get_model_info\<close>, whose exception is not caught. Outside
  simulation mode the real path is then tried; both \<open>except\<close> clauses only log, so every
  exception of the \<open>try\<close> block leads on to the simulation.
\<close>

definition ResearchAgent_process ::
  "ai_config \<Rightarrow> bool \<Rightarrow> json_content api_result \<Rightarrow> agent \<Rightarrow> research_message
     \<Rightarrow> (error + research_result) \<times> agent" where
  "ResearchAgent_process c ctor_ok api a message =
     (case ResearchRequest_init message of
        Inl _ \<Rightarrow> (Inl ResearchAgentError, a)
      | Inr request \<Rightarrow>
          (case get_model_info (research_config c) (Some (temperature (research_config c))) of
             Inl e \<Rightarrow> (Inl e, a)
           | Inr _ \<Rightarrow>
               if \<not> simulation_mode (research_config c) then
                 (case ResearchAgent_try_real c ctor_ok api a request of
                    (Inr (Some r), a') \<Rightarrow> (Inr r, a')
                  | (Inr None, a') \<Rightarrow> (Inr (get_enhanced_research_content (topic request)), a')
                  | (Inl _, a') \<Rightarrow> (Inr (get_enhanced_research_content (topic request)), a'))
               else (Inr (get_enhanced_research_content (topic request)), a)))"

subsection \<open>Writer agent (\<open>writer.py\<close>)\<close>

record writer_message =
  title_arg :: "string option"
  executive_summary_arg :: "string option"
  key_points_arg :: "string list option"
  keywords_arg :: "string list option"
  tone_arg :: "string option"

record WriterRequest = brief +
  tone :: string

text \<open>
  Request validation: title and summary are required and must not be blank, and are
  stored stripped; at least one key point; \<open>keywords\<close> defaults to the empty list and
  \<open>tone\<close> to \<open>professional\<close>.
\<close>

definition WriterRequest_init :: "writer_message \<Rightarrow> error + WriterRequest" where
  "WriterRequest_init m =
     (case (title_arg m, executive_summary_arg m, key_points_arg m) of
        (Some t, Some s, Some kp) \<Rightarrow>
          if py_strip t = [] then Inl ValidationError
          else if py_strip s = [] then Inl ValidationError
          else if length kp < 1 then Inl ValidationError
          else Inr \<lparr> title = py_strip t, executive_summary = py_strip s, key_points = kp,
                     keyword_list = (case keywords_arg m of None \<Rightarrow> [] | Some kw \<Rightarrow> kw),
                     tone = (case tone_arg m of None \<Rightarrow> ''professional'' | Some x \<Rightarrow> x) \<rparr>
      | _ \<Rightarrow> Inl ValidationError)"

text \<open>
  \<open>WriterResponse\<close>; its key \<open>keywords\<close> is the field \<open>used_keywords\<close>. A word count
  below 100 is refused.
\<close>

record WriterResponse =
  article_text :: string
  used_keywords :: "string list"
  word_count :: int
  writing_style :: string

definition WriterResponse_init ::
  "string \<Rightarrow> string list \<Rightarrow> int \<Rightarrow> string \<Rightarrow> error + WriterResponse" where
  "WriterResponse_init article kws wc style =
     (if wc < 100 then Inl ValidationError
      else Inr \<lparr> article_text = article, used_keywords = kws, word_count = wc,
                 writing_style = style \<rparr>)"

text \<open>
  The response both paths of \<open>WriterAgent.process\<close> build from the article:
  \<open>word_count=len(article_html.split())\<close>.
\<close>

definition WriterAgent_response :: "WriterRequest \<Rightarrow> string \<Rightarrow> error + WriterResponse" where
  "WriterAgent_response request article_html =
     WriterResponse_init article_html (keyword_list request)
       (int (length (py_split article_html))) (tone request)"

text \<open>
  \<open>WriterAgent._call_real_ai\<close> returns the content of the first choice, which the API
  may leave empty (\<open>None\<close>).
\<close>

definition WriterAgent_call_real_ai ::
  "agent \<Rightarrow> string option api_result \<Rightarrow> error + string option" where
  "WriterAgent_call_real_ai a api =
     (if \<not> openai_client a then Inl ModelInitializationError
      else case api of
             ApiRaises \<Rightarrow> Inl WriterAgentError
           | ApiReturns content \<Rightarrow> Inr content)"

text \<open>
  The \<open>try\<close> block of \<open>WriterAgent.process\<close>. \<open>None.split()\<close> raises \<open>AttributeError\<close>, and
  the response is validated inside the block.
\<close>

definition WriterAgent_try_real ::
  "ai_config \<Rightarrow> bool \<Rightarrow> string option api_result \<Rightarrow> agent \<Rightarrow> WriterRequest
     \<Rightarrow> (error + WriterResponse option) \<times> agent" where
  "WriterAgent_try_real c ctor_ok api a request =
     (case init_openai_client c ctor_ok a of
        (Inl e, a') \<Rightarrow> (Inl e, a')
      | (Inr _, a') \<Rightarrow>
          if openai_client a' then
            (case WriterAgent_call_real_ai a' api of
               Inl e \<Rightarrow> (Inl e, a')
             | Inr None \<Rightarrow> (Inl AttributeError, a')
             | Inr (Some article_html) \<Rightarrow>
                 (case WriterAgent_response request article_html of
                    Inl e \<Rightarrow> (Inl e, a')
                  | Inr result \<Rightarrow> (Inr (Some result), a')))
          else (Inr None, a'))"

text \<open>
  \<open>WriterAgent.process\<close>. As in the research agent, the log line after the validation
  of the request calls \<open>get_model_info\<close> outside any \<open>try\<close>. The simulation path
  validates its response outside any \<open>try\<close> as well: a validation error there would
  reach the caller.
\<close>

definition WriterAgent_simulation :: "WriterRequest \<Rightarrow> error + WriterResponse" where
  "WriterAgent_simulation request =
     WriterAgent_response request (get_enhanced_writing_content request)"

definition WriterAgent_process ::
  "ai_config \<Rightarrow> bool \<Rightarrow> string option api_result \<Rightarrow> agent \<Rightarrow> writer_message
     \<Rightarrow> (error + WriterResponse) \<times> agent" where
  "WriterAgent_process c ctor_ok api a message =
     (case WriterRequest_init message of
        Inl _ \<Rightarrow> (Inl WriterAgentError, a)
      | Inr request \<Rightarrow>
          (case get_model_info (writing_config c) (Some (temperature (writing_config c))) of
             Inl e \<Rightarrow> (Inl e, a)
           | Inr _ \<Rightarrow>
               if \<not> simulation_mode (writing_config c) then
                 (case WriterAgent_try_real c ctor_ok api a request of
                    (Inr (Some result), a') \<Rightarrow> (Inr result, a')
                  | (Inr None, a') \<Rightarrow> (WriterAgent_simulation request, a')
                  | (Inl _, a') \<Rightarrow> (WriterAgent_simulation request, a'))
               else (WriterAgent_simulation request, a)))"

subsection \<open>Image agent (\<open>image.py\<close>)\<close>

record image_message =
  prompt_arg :: "string option"
  style_arg :: "string option"
  size_arg :: "string option"
  quality_arg :: "string option"

text \<open>\<open>ImageRequest\<close>; its key \<open>size\<close> is the field \<open>size_field\<close>.\<close>

record ImageRequest =
  prompt :: string
  style :: string
  size_field :: string
  quality :: string

definition ImageRequest_init :: "image_message \<Rightarrow> error + ImageRequest" where
  "ImageRequest_init m =
     (case prompt_arg m of
        None \<Rightarrow> Inl ValidationError
      | Some p \<Rightarrow>
          let st = (case style_arg m of None \<Rightarrow> ''professional'' | Some x \<Rightarrow> x);
              sz = (case size_arg m of None \<Rightarrow> ''1024x1024'' | Some x \<Rightarrow> x);
              q = (case quality_arg m of None \<Rightarrow> ''standard'' | Some x \<Rightarrow> x)
          in if py_strip p = [] then Inl ValidationError
             else if sz \<notin> set [''1024x1024'', ''1024x1792'', ''1792x1024''] then Inl ValidationError
             else if q \<notin> set [''standard'', ''hd''] then Inl ValidationError
             else Inr \<lparr> prompt = py_strip p, style = st, size_field = sz, quality = q \<rparr>)"

record ImageResponse =
  image_data :: string
  prompt_used :: string
  style_used :: string
  dimensions :: string

text \<open>\<open>ImageResponse\<close>: the image data must be there (\<open>b64_json\<close> may be \<open>None\<close>).\<close>

definition ImageResponse_init :: "string option \<Rightarrow> ImageRequest \<Rightarrow> error + ImageResponse" where
  "ImageResponse_init data request =
     (case data of
        None \<Rightarrow> Inl ValidationError
      | Some d \<Rightarrow> Inr \<lparr> image_data = d, prompt_used = prompt request,
                          style_used = style request, dimensions = size_field request \<rparr>)"

text \<open>
  \<open>ImageAgent._call_real_ai\<close>: the API answers with a list of images; an empty list is
  an error, otherwise the data of the first image is returned.
\<close>

definition ImageAgent_call_real_ai ::
  "agent \<Rightarrow> string option list api_result \<Rightarrow> error + string option" where
  "ImageAgent_call_real_ai a api =
     (if \<not> openai_client a then Inl ModelInitializationError
      else case api of
             ApiRaises \<Rightarrow> Inl ImageAgentError
           | ApiReturns [] \<Rightarrow> Inl ImageAgentError
           | ApiReturns (d # _) \<Rightarrow> Inr d)"

definition ImageAgent_try_real ::
  "ai_config \<Rightarrow> bool \<Rightarrow> string option list api_result \<Rightarrow> agent \<Rightarrow> ImageRequest
     \<Rightarrow> (error + ImageResponse option) \<times> agent" where
  "ImageAgent_try_real c ctor_ok api a request =
     (case init_openai_client c ctor_ok a of
        (Inl e, a') \<Rightarrow> (Inl e, a')
      | (Inr _, a') \<Rightarrow>
          if openai_client a' then
            (case ImageAgent_call_real_ai a' api of
               Inl e \<Rightarrow> (Inl e, a')
             | Inr data \<Rightarrow>
                 (case ImageResponse_init data request of
                    Inl e \<Rightarrow> (Inl e, a')
                  | Inr result \<Rightarrow> (Inr (Some result), a')))
          else (Inr None, a'))"

text \<open>
  The simulation path of \<open>ImageAgent.process\<close>: the image data is the literal
  \<open>SIMULATED_IMAGE_DATA\<close>, whatever the request.
\<close>

definition ImageAgent_simulation :: "ImageRequest \<Rightarrow> error + ImageResponse" where
  "ImageAgent_simulation request = ImageResponse_init (Some ''SIMULATED_IMAGE_DATA'') request"

definition ImageAgent_process ::
  "ai_config \<Rightarrow> bool \<Rightarrow> string option list api_result \<Rightarrow> agent \<Rightarrow> image_message
     \<Rightarrow> (error + ImageResponse) \<times> agent" where
  "ImageAgent_process c ctor_ok api a message =
     (case ImageRequest_init message of
        Inl _ \<Rightarrow> (Inl ImageAgentError, a)
      | Inr request \<Rightarrow>
          (case get_model_info (image_config c) None of
             Inl e \<Rightarrow> (Inl e, a)
           | Inr _ \<Rightarrow>
               if \<not> simulation_mode (image_config c) then
                 (case ImageAgent_try_real c ctor_ok api a request of
                    (Inr (Some result), a') \<Rightarrow> (Inr result, a')
                  | (Inr None, a') \<Rightarrow> (ImageAgent_simulation request, a')
                  | (Inl _, a') \<Rightarrow> (ImageAgent_simulation request, a'))
               else (ImageAgent_simulation request, a)))"

section \<open>Demo workflow (\<open>examples/enhanced_demo.py\<close>)\<close>

text \<open>
  The demo has its own message envelope and its own three agents, which take no
  request objects and validate nothing. The creation time of a message is read by
  nothing but the final timing printout and is left out.

  The demo agents build their log lines with a \<open>get_model_info\<close> of their own. In
  simulation mode, which the properties of the demo are about, it formats the \<open>model\<close>
  entry whatever it is and raises nothing. Outside simulation mode it evaluates
  \<open>'o4-mini' in model\<close> like the one of \<open>base.py\<close>; the functions below give the outcome
  for a \<open>model\<close> entry that is a string, as the constructor and the public operations
  of the configuration leave it.
\<close>

record 'a Message =
  content :: 'a
  media_type :: string
  model_used :: "string option"

definition Message_init :: "'a \<Rightarrow> string option \<Rightarrow> 'a Message" where
  "Message_init c m = \<lparr> content = c, media_type = ''application/json'', model_used = m \<rparr>"

text \<open>How an f-string shows an optional string.\<close>

definition py_str :: "string option \<Rightarrow> string" where
  "py_str x = (case x of None \<Rightarrow> ''None'' | Some s \<Rightarrow> s)"

text \<open>
  What the demo needs from outside: the MD5 hex digest of a text, the \<open>:.1f\<close> format of
  a float, the formatted time of the rendering, and the three answers of the API. An
  answer that is returned is taken to have the shape the demo reads from it.
\<close>

record demo_world =
  md5_hexdigest :: "string \<Rightarrow> string"
  format_1f :: "rat \<Rightarrow> string"
  now_text :: string
  research_api :: "research_result api_result"
  writer_api :: "string api_result"
  image_api :: "string api_result"

definition Demo_ResearchAgent_process ::
  "ai_config \<Rightarrow> demo_world \<Rightarrow> string Message \<Rightarrow> research_result Message" where
  "Demo_ResearchAgent_process c w message =
     (let topic_text = content message
      in if \<not> simulation_mode (research_config c) \<and> has_valid_api_key c OPENAI then
           (case research_api w of
              ApiReturns brief \<Rightarrow> Message_init brief (Some (py_str (model (research_config c))))
            | ApiRaises \<Rightarrow>
                Message_init (get_enhanced_research_content topic_text)
                  (Some ''Enhanced Simulation''))
         else Message_init (get_enhanced_research_content topic_text)
                (Some ''Enhanced Simulation''))"

definition Demo_WriterAgent_process ::
  "ai_config \<Rightarrow> demo_world \<Rightarrow> research_result Message \<Rightarrow> WriterResponse Message" where
  "Demo_WriterAgent_process c w message =
     (let brief = content message;
          (article_html, label) =
            (if \<not> simulation_mode (writing_config c) \<and> has_valid_api_key c OPENAI then
               (case writer_api w of
                  ApiReturns text \<Rightarrow> (text, py_str (model (writing_config c)))
                | ApiRaises \<Rightarrow> (get_enhanced_writing_content brief, ''Enhanced Simulation''))
             else (get_enhanced_writing_content brief, ''Enhanced Simulation''))
      in Message_init
           \<lparr> article_text = article_html, used_keywords = keyword_list brief,
             word_count = int (length (py_split article_html)),
             writing_style = ''professional'' \<rparr>
           (Some label))"

text \<open>The image dictionary of the demo; its keys \<open>dimensions\<close> and \<open>format\<close> carry a prefix.\<close>

record demo_image =
  image_url :: string
  alt_text :: string
  image_dimensions :: string
  image_format :: string
  generation_method :: string

text \<open>
  \<open>_generate_simulation_image\<close>: the seed is the first twelve hex digits of the MD5
  digest of the first three keywords joined by a space.
\<close>

definition generate_simulation_image :: "(string \<Rightarrow> string) \<Rightarrow> string list \<Rightarrow> demo_image" where
  "generate_simulation_image md5 kws =
     (let keyword_text = py_join '' '' (take 3 kws);
          seed = take 12 (md5 keyword_text)
      in \<lparr> image_url = ''https://picsum.photos/seed/'' @ seed @ ''/800/400'',
           alt_text = ''Professional illustration representing '' @ keyword_text,
           image_dimensions = ''800x400'',
           image_format = ''JPEG'',
           generation_method = ''Procedural (DALL-E 3 Ready)'' \<rparr>)"

definition Demo_ImageAgent_call_real_ai ::
  "ai_config \<Rightarrow> string \<Rightarrow> string list \<Rightarrow> demo_image" where
  "Demo_ImageAgent_call_real_ai c url kws =
     (let p = ''Professional, modern illustration representing '' @
              py_join '', '' (take 3 kws) @
              '', suitable for business article header, clean design, high quality''
      in \<lparr> image_url = url,
           alt_text = ''AI-generated illustration: '' @ p,
           image_dimensions = image_size (image_config c),
           image_format = ''PNG'',
           generation_method = ''OpenAI DALL-E 3'' \<rparr>)"

definition Demo_ImageAgent_process ::
  "ai_config \<Rightarrow> demo_world \<Rightarrow> string list Message \<Rightarrow> demo_image Message" where
  "Demo_ImageAgent_process c w message =
     (let kws = content message
      in if \<not> simulation_mode (image_config c) \<and> has_valid_api_key c OPENAI then
           (case image_api w of
              ApiReturns url \<Rightarrow> Message_init (Demo_ImageAgent_call_real_ai c url kws) (Some ''dall-e-3'')
            | ApiRaises \<Rightarrow>
                Message_init (generate_simulation_image (md5_hexdigest w) kws)
                  (Some ''Enhanced Simulation''))
         else Message_init (generate_simulation_image (md5_hexdigest w) kws)
                (Some ''Enhanced Simulation''))"

text \<open>
  The document skeleton of \<open>_create_enhanced_html\<close>: the literal text of its f-string,
  cut at the interpolations. The robot emoji of the attribution heading (U+1F916) lies
  outside the character range of the model and stands as its four UTF-8 bytes.
\<close>

definition robot_face :: string where
  "robot_face = [CHR 0xF0, CHR 0x9F, CHR 0xA4, CHR 0x96]"

definition html_part_1 :: string where
  \<open>html_part_1 = text_lines
     ['''',
      ''        <!DOCTYPE html>'',
      ''        <html lang="en">'',
      ''        <head>'',
      ''            <meta charset="UTF-8">'',
      ''            <meta name="viewport" content="width=device-width, initial-scale=1.0">'',
      ''            <title>'']\<close>

definition html_part_2 :: string where
  \<open>html_part_2 = text_lines
     [''</title>'',
      ''            <style>'',
      ''                body {'',
      ''                    font-family: -apple-system, BlinkMacSystemFont, "Segoe UI", Roboto, Helvetica, Arial, sans-serif;'',
      ''                    line-height: 1.6;'',
      ''                    max-width: 800px;'',
      ''                    margin: 0 auto;'',
      ''                    padding: 20px;'',
      ''                    color: #333;'',
      ''                }'',
      ''                .header-image {'',
      ''                    width: 100%;'',
      ''                    max-height: 400px;'',
      ''                    object-fit: cover;'',
      ''                    border-radius: 8px;'',
      ''                    margin: 20px 0;'',
      ''                }'',
      ''                .ai-attribution {'',
      ''                    background: #f8f9fa;'',
      ''                    border-radius: 8px;'',
      ''                    padding: 15px;'',
      ''                    margin: 20px 0;'',
      ''                    font-size: 0.9em;'',
      ''                    color: #666;'',
      ''                }'',
      ''                .content {'',
      ''                    margin-top: 30px;'',
      ''                }'',
      ''                h1 {'',
      ''                    color: #2c3e50;'',
      ''                    margin-bottom: 1em;'',
      ''                }'',
      ''                h2 {'',
      ''                    color: #34495e;'',
      ''                    margin-top: 1.5em;'',
      ''                }'',
      ''                ul {'',
      ''                    padding-left: 1.5em;'',
      ''                }'',
      ''                li {'',
      ''                    margin-bottom: 0.5em;'',
      ''                }'',
      ''                .executive-summary {'',
      ''                    font-size: 1.1em;'',
      ''                    color: #444;'',
      ''                    border-left: 4px solid #3498db;'',
      ''                    padding-left: 1em;'',
      ''                    margin: 1.5em 0;'',
      ''                }'',
      ''                .key-points {'',
      ''                    background: #f7f9fc;'',
      ''                    padding: 1.5em;'',
      ''                    border-radius: 8px;'',
      ''                    margin: 1.5em 0;'',
      ''                }'',
      ''                .methodology {'',
      ''                    font-style: italic;'',
      ''                    color: #666;'',
      ''                    margin-top: 2em;'',
      ''                    padding-top: 1em;'',
      ''                    border-top: 1px solid #eee;'',
      ''                }'',
      ''            </style>'',
      ''        </head>'',
      ''        <body>'',
      ''            <img src="'']\<close>

definition html_part_3 :: string where
  \<open>html_part_3 = text_lines
     [''" '',
      ''                 alt="'']\<close>

definition html_part_4 :: string where
  \<open>html_part_4 = text_lines
     [''"'',
      ''                 class="header-image">'',
      ''            '',
      ''            <div class="ai-attribution">'',
      (''                <h4>'' @ robot_face @ '' AI Model Attribution</h4>''),
      ''                <p>This content was generated using multiple AI models:</p>'',
      ''                <ul>'',
      ''                    <li>Research Analysis: '']\<close>

definition html_part_5 :: string where
  \<open>html_part_5 = text_lines
     [''</li>'',
      ''                    <li>Content Generation: '']\<close>

definition html_part_6 :: string where
  \<open>html_part_6 = text_lines
     [''</li>'',
      ''                    <li>Image Creation: '']\<close>

definition html_part_7 :: string where
  \<open>html_part_7 = text_lines
     [''</li>'',
      ''                </ul>'',
      ''                <p>Content Quality Score: '']\<close>

definition html_part_8 :: string where
  \<open>html_part_8 = text_lines
     [''%</p>'',
      ''            </div>'',
      ''            '',
      ''            <div class="content">'',
      ''                <h1>'']\<close>

definition html_part_9 :: string where
  \<open>html_part_9 = text_lines
     [''</h1>'',
      ''                '',
      ''                <div class="executive-summary">'',
      ''                    <p>'']\<close>

definition html_part_10 :: string where
  \<open>html_part_10 = text_lines
     [''</p>'',
      ''                </div>'',
      '''',
      ''                <div class="key-points">'',
      ''                    <h2>Key Insights</h2>'',
      ''                    <ul>'',
      ''                        '']\<close>

definition html_part_11 :: string where
  \<open>html_part_11 = text_lines
     ['''',
      ''                    </ul>'',
      ''                </div>'',
      '''',
      ''                '']\<close>

definition html_part_12 :: string where
  \<open>html_part_12 = text_lines
     ['''',
      ''                '',
      ''                <div class="methodology">'',
      ''                    <p><strong>Research Methodology:</strong> '']\<close>

definition html_part_13 :: string where
  \<open>html_part_13 = text_lines
     [''</p>'',
      ''                </div>'',
      ''            </div>'',
      ''            '',
      ''            <footer class="ai-attribution">'',
      ''                <p><strong>Generated:</strong> '']\<close>

definition html_part_14 :: string where
  \<open>html_part_14 = text_lines
     [''</p>'',
      ''                <p><strong>Keywords:</strong> '']\<close>

definition html_part_15 :: string where
  \<open>html_part_15 = text_lines
     [''</p>'',
      ''            </footer>'',
      ''        </body>'',
      ''        </html>'',
      ''        '']\<close>

definition create_enhanced_html ::
  "demo_world \<Rightarrow> research_result Message \<Rightarrow> WriterResponse Message \<Rightarrow> demo_image Message
     \<Rightarrow> string" where
  "create_enhanced_html w research_result writer_result image_result =
     html_part_1 @ title (content research_result) @
     html_part_2 @ image_url (content image_result) @
     html_part_3 @ alt_text (content image_result) @
     html_part_4 @ py_str (model_used research_result) @
     html_part_5 @ py_str (model_used writer_result) @
     html_part_6 @ py_str (model_used image_result) @
     html_part_7 @ format_1f w (research_confidence (content research_result) * 100) @
     html_part_8 @ title (content research_result) @
     html_part_9 @ executive_summary (content research_result) @
     html_part_10 @
     concat (map (\<lambda>point. ''<li>'' @ point @ ''</li>'') (key_points (content research_result))) @
     html_part_11 @ article_text (content writer_result) @
     html_part_12 @ methodology (content research_result) @
     html_part_13 @ now_text w @
     html_part_14 @ py_join '', '' (keyword_list (content research_result)) @
     html_part_15"

text \<open>
  \<open>OrchestratorAgent.process\<close>: research, writer, image, assembly. The three stage
  results are kept apart from the rendering so that they can be spoken about.
\<close>

definition OrchestratorAgent_stages ::
  "ai_config \<Rightarrow> demo_world \<Rightarrow> string
     \<Rightarrow> research_result Message \<times> WriterResponse Message \<times> demo_image Message" where
  "OrchestratorAgent_stages c w topic_text =
     (let research_result = Demo_ResearchAgent_process c w (Message_init topic_text None);
          writer_result = Demo_WriterAgent_process c w research_result;
          image_input = Message_init (used_keywords (content writer_result)) None;
          image_result = Demo_ImageAgent_process c w image_input
      in (research_result, writer_result, image_result))"

definition OrchestratorAgent_process :: "ai_config \<Rightarrow> demo_world \<Rightarrow> string \<Rightarrow> string Message" where
  "OrchestratorAgent_process c w topic_text =
     (case OrchestratorAgent_stages c w topic_text of
        (research_result, writer_result, image_result) \<Rightarrow>
          \<lparr> content = create_enhanced_html w research_result writer_result image_result,
            media_type = ''text/html'',
            model_used = Some ''Orchestrator'' \<rparr>)"

section \<open>Floating-point numbers of Python\<close>

text \<open>
  A Python \<open>float\<close> is a binary64 number of IEEE 754: a finite one is given by the
  rational it denotes, next to the two infinities and the NaN. The sign of a zero is
  not kept: the inputs of the endpoint are positive, and no operation there gives \<open>-0.0\<close>.
\<close>

datatype pyfloat = Finite rat | PosInf | NegInf | NaN

text \<open>\<open>2^e\<close> for an integer exponent.\<close>

definition exp2 :: "int \<Rightarrow> rat" where
  "exp2 e = (if 0 \<le> e then 2 ^ nat e else 1 / 2 ^ nat (- e))"

text \<open>The nearest integer, a tie going to the even one.\<close>

definition round_half_even :: "rat \<Rightarrow> int" where
  "round_half_even y =
     (let f = \<lfloor>y\<rfloor>; d = y - of_int f
      in if d < 1 / 2 then f else if 1 / 2 < d then f + 1 else if even f then f else f + 1)"

text \<open>
  The binary exponent of a positive rational \<open>x\<close>: the \<open>e\<close> with \<open>2^e \<le> x < 2^(e+1)\<close>, found
  from the bit lengths of numerator and denominator.
\<close>

definition ilog2 :: "rat \<Rightarrow> int" where
  "ilog2 x =
     (case quotient_of x of
        (p, q) \<Rightarrow>
          let e0 = int (floorlog 2 (nat p)) - int (floorlog 2 (nat q))
          in if x < exp2 e0 then e0 - 1 else e0)"

text \<open>
  Rounding a rational to binary64 with the integer rounding \<open>rnd\<close>: the magnitude is
  scaled so that its significand has 53 bits (fewer below \<open>2^(-1022)\<close>, where the numbers
  are subnormal and the spacing stays \<open>2^(-1074)\<close>), rounded to an integer and scaled
  back; a magnitude that reaches \<open>2^1024\<close> is infinite.
\<close>

definition round_to_double :: "(rat \<Rightarrow> int) \<Rightarrow> rat \<Rightarrow> pyfloat" where
  "round_to_double rnd x =
     (if x = 0 then Finite 0
      else
        let a = \<bar>x\<bar>;
            e = max (ilog2 a) (- 1022);
            q = exp2 (e - 52);
            r = of_int (rnd (a / q)) * q
        in if exp2 1024 \<le> r then (if 0 < x then PosInf else NegInf)
           else Finite (if 0 < x then r else - r))"

text \<open>
  The float nearest to a rational (round to nearest, ties to even): the result of
  every correctly rounded operation, and of reading a decimal numeral.
\<close>

definition to_double :: "rat \<Rightarrow> pyfloat" where
  "to_double x = round_to_double round_half_even x"

text \<open>
  \<open>float(text)\<close> for the text of a query parameter, given by the number that the text
  denotes: a decimal numeral is read as the nearest float, \<open>inf\<close> and \<open>nan\<close> as themselves.
\<close>

definition py_float :: "pyfloat \<Rightarrow> pyfloat" where
  "py_float x = (case x of Finite r \<Rightarrow> to_double r | _ \<Rightarrow> x)"

text \<open>\<open>x < y\<close> and \<open>x <= y\<close> on floats: every comparison with a NaN is false.\<close>

fun py_lt :: "pyfloat \<Rightarrow> pyfloat \<Rightarrow> bool" where
  "py_lt (Finite a) (Finite b) = (a < b)"
| "py_lt (Finite a) PosInf = True"
| "py_lt NegInf (Finite b) = True"
| "py_lt NegInf PosInf = True"
| "py_lt _ _ = False"

fun py_le :: "pyfloat \<Rightarrow> pyfloat \<Rightarrow> bool" where
  "py_le (Finite a) (Finite b) = (a \<le> b)"
| "py_le (Finite a) PosInf = True"
| "py_le NegInf (Finite b) = True"
| "py_le NegInf PosInf = True"
| "py_le PosInf PosInf = True"
| "py_le NegInf NegInf = True"
| "py_le _ _ = False"

text \<open>
  \<open>x ** 2\<close> (\<open>float_pow\<close> of CPython with the exponent \<open>2.0\<close>). NaN, the infinities, zero
  and \<open>\<plusminus>1.0\<close> are answered without the C library. Otherwise \<open>pow(|x|, 2.0)\<close> of the C
  library is called, here \<open>libm_pow\<close> applied to \<open>|x|\<close>; an infinite result is the range
  error that Python raises as \<open>OverflowError\<close>, an underflow to zero is no error.
\<close>

definition py_pow2 :: "(rat \<Rightarrow> pyfloat) \<Rightarrow> pyfloat \<Rightarrow> error + pyfloat" where
  "py_pow2 libm_pow x =
     (case x of
        NaN \<Rightarrow> Inr NaN
      | PosInf \<Rightarrow> Inr PosInf
      | NegInf \<Rightarrow> Inr PosInf
      | Finite r \<Rightarrow>
          if r = 0 then Inr (Finite 0)
          else if \<bar>r\<bar> = 1 then Inr (Finite 1)
          else
            (case libm_pow \<bar>r\<bar> of
               PosInf \<Rightarrow> Inl OverflowError
             | NegInf \<Rightarrow> Inl OverflowError
             | y \<Rightarrow> Inr y))"


text \<open>
  \<open>x / y\<close> (\<open>float_div\<close>): a zero divisor raises \<open>ZeroDivisionError\<close>, whatever the
  dividend; the quotient is correctly rounded and overflows to an infinity silently.
\<close>

definition py_truediv :: "pyfloat \<Rightarrow> pyfloat \<Rightarrow> error + pyfloat" where
  "py_truediv x y =
     (case y of
        Finite b \<Rightarrow>
          if b = 0 then Inl ZeroDivisionError
          else
            (case x of
               Finite a \<Rightarrow> Inr (to_double (a / b))
             | PosInf \<Rightarrow> Inr (if 0 < b then PosInf else NegInf)
             | NegInf \<Rightarrow> Inr (if 0 < b then NegInf else PosInf)
             | NaN \<Rightarrow> Inr NaN)
      | NaN \<Rightarrow> Inr NaN
      | _ \<Rightarrow> (case x of Finite a \<Rightarrow> Inr (Finite 0) | _ \<Rightarrow> Inr NaN))"

text \<open>
  \<open>round(x, 2)\<close>: the float nearest to the decimal with two places that is nearest to the
  exact value of \<open>x\<close>, a tie going to the even last place; infinities and NaN are
  returned as they are.
\<close>

definition py_round2 :: "pyfloat \<Rightarrow> pyfloat" where
  "py_round2 x =
     (case x of
        Finite r \<Rightarrow> to_double (of_int (round_half_even (r * 100)) / 100)
      | _ \<Rightarrow> x)"

section \<open>BMI endpoint (\<open>fastapi-mcp-demo/main.py\<close>)\<close>

record BMIResponse =
  bmi_value :: pyfloat
  assessment :: string

text \<open>
  The handler of \<open>GET /bmi\<close>. The two query parameters are read as floats and are
  declared \<open>gt=0\<close>: the framework answers a request that breaks this (a number that is
  not positive, one that is read as \<open>0.0\<close>, a NaN) with a validation error and never
  calls the body. The body raises what the power and the division raise.
\<close>

definition bmi :: "(rat \<Rightarrow> pyfloat) \<Rightarrow> pyfloat \<Rightarrow> pyfloat \<Rightarrow> error + BMIResponse" where
  "bmi libm_pow weight_kg height_m =
     (let w = py_float weight_kg; h = py_float height_m
      in if \<not> py_lt (Finite 0) w \<or> \<not> py_lt (Finite 0) h then Inl ValidationError
         else
           (case py_pow2 libm_pow h of
              Inl e \<Rightarrow> Inl e
            | Inr s \<Rightarrow>
                (case py_truediv w s of
                   Inl e \<Rightarrow> Inl e
                 | Inr q \<Rightarrow>
                     let v = py_round2 q;
                         status = (if py_lt v (to_double (185 / 10)) then ''Underweight''
                                   else if py_le v (to_double (249 / 10)) then ''Normal weight''
                                   else if py_le v (to_double (299 / 10)) then ''Overweight''
                                   else ''Obesity'')
                     in Inr \<lparr> bmi_value = v, assessment = status \<rparr>)))"

section \<open>Concrete inputs\<close>

text \<open>An environment that holds a well-formed OpenAI key and no other credential.\<close>

definition env_openai :: "string \<Rightarrow> string option" where
  "env_openai = (\<lambda>k. if k = ''OPENAI_API_KEY'' then Some ''sk-0123456789abcdefghij'' else None)"

text \<open>
  The configuration after \<open>ai_config.research_config["model"] = "gpt-5"\<close>: the dictionaries
  are plain attributes, so a caller can put a model there that the allowlist does not
  have.
\<close>

definition unsupported_research_model :: ai_config where
  "unsupported_research_model =
     (default_config env_openai)
       \<lparr> research_config := (research_config (default_config env_openai))\<lparr> model := Some ''gpt-5'' \<rparr> \<rparr>"

text \<open>A writer request, as the dictionary passed in and as validated.\<close>

definition writer_message_ev :: writer_message where
  "writer_message_ev =
     \<lparr> title_arg = Some ''Electric Vehicles'', executive_summary_arg = Some ''An overview.'',
       key_points_arg = Some [''Batteries''], keywords_arg = None, tone_arg = None \<rparr>"

definition writer_request_ev :: WriterRequest where
  "writer_request_ev =
     \<lparr> title = ''Electric Vehicles'', executive_summary = ''An overview.'',
       key_points = [''Batteries''], keyword_list = [], tone = ''professional'' \<rparr>"

text \<open>The configuration after real mode has been enabled with that key.\<close>

definition real_config :: ai_config where
  "real_config = snd (enable_real_ai OPENAI (default_config env_openai))"

text \<open>
  That configuration after a direct write of \<open>None\<close> to the \<open>model\<close> entry of each
  capability (\<open>ai_config.research_config["model"] = None\<close> and so on).
\<close>

definition no_model_config :: ai_config where
  "no_model_config =
     real_config
       \<lparr> research_config := (research_config real_config)\<lparr> model := None \<rparr>,
         writing_config := (writing_config real_config)\<lparr> model := None \<rparr>,
         image_config := (image_config real_config)\<lparr> model := None \<rparr> \<rparr>"

text \<open>A research request and two image requests.\<close>

definition research_message_ev :: research_message where
  "research_message_ev = \<lparr> topic_arg = Some ''Electric Vehicles'', depth_arg = None \<rparr>"

definition image_message_cars :: image_message where
  "image_message_cars =
     \<lparr> prompt_arg = Some ''electric cars'', style_arg = None, size_arg = None, quality_arg = None \<rparr>"

definition image_message_solar :: image_message where
  "image_message_solar =
     \<lparr> prompt_arg = Some ''solar power'', style_arg = None, size_arg = None, quality_arg = None \<rparr>"

text \<open>
  A world for the demo in which every call of the API raises; the digest and the number
  format are stand-ins with the right shape of result.
\<close>

definition demo_world_offline :: demo_world where
  "demo_world_offline =
     \<lparr> md5_hexdigest = (\<lambda>s. ''d41d8cd98f00b204e9800998ecf8427e''),
       format_1f = (\<lambda>x. ''92.6''),
       now_text = ''2025-01-01 00:00:00'',
       research_api = ApiRaises,
       writer_api = ApiRaises,
       image_api = ApiRaises \<rparr>"

text \<open>A C library whose \<open>pow\<close> rounds the exact square to the nearest float.\<close>

definition libm_pow_nearest :: "rat \<Rightarrow> pyfloat" where
  "libm_pow_nearest x = to_double (x * x)"

section \<open>Properties of the configuration holder\<close>

lemma SUPPORTED_MODELS_nonempty_entries:
  "m \<in> set (SUPPORTED_MODELS t) \<Longrightarrow> m \<noteq> []"
  by (auto simp: SUPPORTED_MODELS_def split: if_splits)

lemma validate_model_config_real:
  "\<not> simulation_mode cfg \<Longrightarrow>
   validate_model_config a cfg =
     (case model cfg of
        None \<Rightarrow> Inl UnsupportedModelError
      | Some m \<Rightarrow> if m \<in> set (SUPPORTED_MODELS (if a = ''image'' then ''image'' else ''chat''))
                  then Inr () else Inl UnsupportedModelError)"
  using SUPPORTED_MODELS_nonempty_entries
  by (auto simp: validate_model_config_def Let_def split: option.splits)

lemma validate_configs_real:
  assumes "\<not> simulation_mode (research_config c)"
      and "\<not> simulation_mode (writing_config c)"
      and "\<not> simulation_mode (image_config c)"
  shows "validate_configs c = (if models_supported c then Inr () else Inl UnsupportedModelError)"
  using assms
  by (auto simp: validate_configs_def validate_model_config_real models_supported_def
           split: sum.splits option.splits if_splits)

lemma validate_configs_simulation:
  assumes "simulation_mode (research_config c)"
      and "simulation_mode (writing_config c)"
      and "simulation_mode (image_config c)"
  shows "validate_configs c = Inr ()"
  using assms by (simp add: validate_configs_def validate_model_config_def)

lemma enable_real_ai_eq:
  "enable_real_ai p c =
     (if \<not> has_valid_api_key c p then (Inl InvalidAPIKeyError, c)
      else (if models_supported c then Inr () else Inl UnsupportedModelError,
            c\<lparr> provider := p,
               research_config := (research_config c)\<lparr> simulation_mode := False \<rparr>,
               writing_config := (writing_config c)\<lparr> simulation_mode := False \<rparr>,
               image_config := (image_config c)\<lparr> simulation_mode := False \<rparr> \<rparr>))"
  by (simp add: enable_real_ai_def Let_def validate_configs_real models_supported_def)

lemma has_valid_api_key_iff:
  "has_valid_api_key c p \<longleftrightarrow>
     (\<exists>key. api_keys c (provider_value p) = Some key \<and> 20 \<le> length key \<and>
        (p = OPENAI \<longrightarrow> startswith key ''sk-'' \<or> startswith key ''org-'') \<and>
        (p = ANTHROPIC \<longrightarrow> startswith key ''sk-ant-''))"
  by (auto simp: has_valid_api_key_def split: option.splits)

text \<open>
  Claim C2. \<open>enable_real_ai\<close> raises \<open>InvalidAPIKeyError\<close> exactly when
  \<open>has_valid_api_key\<close> is false for the provider, that is, when no credential is
  registered for it or the credential is shorter than 20 characters or lacks the
  provider's prefix. The credential check comes first; for a provider whose credential
  passes it, a capability whose model is outside its allowlist makes the call raise
  \<open>UnsupportedModelError\<close>. When the call returns, the three capabilities have
  \<open>simulation_mode\<close> false.
\<close>

theorem enable_real_ai_errors:
  "(fst (enable_real_ai p c) = Inl InvalidAPIKeyError \<longleftrightarrow> \<not> has_valid_api_key c p) \<and>
   (has_valid_api_key c p \<longleftrightarrow>
     (\<exists>key. api_keys c (provider_value p) = Some key \<and> 20 \<le> length key \<and>
        (p = OPENAI \<longrightarrow> startswith key ''sk-'' \<or> startswith key ''org-'') \<and>
        (p = ANTHROPIC \<longrightarrow> startswith key ''sk-ant-''))) \<and>
   (has_valid_api_key c p \<and> \<not> models_supported c \<longrightarrow>
      fst (enable_real_ai p c) = Inl UnsupportedModelError) \<and>
   (fst (enable_real_ai p c) = Inr () \<longrightarrow>
      \<not> simulation_mode (research_config (snd (enable_real_ai p c))) \<and>
      \<not> simulation_mode (writing_config (snd (enable_real_ai p c))) \<and>
      \<not> simulation_mode (image_config (snd (enable_real_ai p c))))"
  using has_valid_api_key_iff [of c p] by (simp add: enable_real_ai_eq)

lemma has_valid_env_openai: "has_valid_api_key (default_config env_openai) OPENAI"
  by (simp add: has_valid_api_key_def default_config_def env_openai_def startswith_def)

lemma no_key_env_openai: "\<not> has_valid_api_key (default_config env_openai) ANTHROPIC"
  by (simp add: has_valid_api_key_def default_config_def env_openai_def)

lemma has_valid_unsupported: "has_valid_api_key unsupported_research_model OPENAI"
  by (simp add: has_valid_api_key_def unsupported_research_model_def default_config_def
        env_openai_def startswith_def)

lemma models_supported_default: "models_supported (default_config env)"
  by (simp add: models_supported_def default_config_def SUPPORTED_MODELS_def)

lemma not_supported_unsupported: "\<not> models_supported unsupported_research_model"
  by (simp add: models_supported_def unsupported_research_model_def default_config_def
        SUPPORTED_MODELS_def)

theorem enable_real_ai_errors_witness:
  "fst (enable_real_ai ANTHROPIC (default_config env_openai)) = Inl InvalidAPIKeyError \<and>
   fst (enable_real_ai OPENAI unsupported_research_model) = Inl UnsupportedModelError \<and>
   fst (enable_real_ai OPENAI (default_config env_openai)) = Inr () \<and>
   \<not> simulation_mode (research_config (snd (enable_real_ai OPENAI (default_config env_openai)))) \<and>
   \<not> simulation_mode (writing_config (snd (enable_real_ai OPENAI (default_config env_openai)))) \<and>
   \<not> simulation_mode (image_config (snd (enable_real_ai OPENAI (default_config env_openai))))"
proof -
  have ok: "fst (enable_real_ai OPENAI (default_config env_openai)) = Inr ()"
    using has_valid_env_openai models_supported_default [of env_openai]
    by (simp add: enable_real_ai_eq)
  show ?thesis
    using enable_real_ai_errors [of ANTHROPIC "default_config env_openai"]
          enable_real_ai_errors [of OPENAI unsupported_research_model]
          enable_real_ai_errors [of OPENAI "default_config env_openai"]
          no_key_env_openai has_valid_unsupported not_supported_unsupported ok
    by blast
qed

lemma enable_real_ai_models:
  "model (research_config (snd (enable_real_ai p c))) = model (research_config c) \<and>
   model (writing_config (snd (enable_real_ai p c))) = model (writing_config c) \<and>
   model (image_config (snd (enable_real_ai p c))) = model (image_config c)"
  by (simp add: enable_real_ai_def Let_def)

lemma models_supported_enable: "models_supported (snd (enable_real_ai p c)) = models_supported c"
  using enable_real_ai_models [of p c] by (simp add: models_supported_def)

lemma models_supported_run:
  "models_supported c \<Longrightarrow> models_supported (run_config_ops c ops)"
  unfolding run_config_ops_def
proof (induction ops arbitrary: c)
  case Nil
  then show ?case by simp
next
  case (Cons x xs)
  have "models_supported (apply_config_op c x)"
    using Cons.prems by (cases x) (simp_all add: models_supported_enable)
  then show ?case
    using Cons.IH by simp
qed

lemma run_config_ops_models:
  "model (research_config (run_config_ops c ops)) = model (research_config c) \<and>
   model (writing_config (run_config_ops c ops)) = model (writing_config c) \<and>
   model (image_config (run_config_ops c ops)) = model (image_config c)"
  unfolding run_config_ops_def
proof (induction ops arbitrary: c)
  case Nil
  then show ?case by simp
next
  case (Cons x xs)
  have "model (research_config (apply_config_op c x)) = model (research_config c) \<and>
        model (writing_config (apply_config_op c x)) = model (writing_config c) \<and>
        model (image_config (apply_config_op c x)) = model (image_config c)"
    by (cases x) (simp_all add: enable_real_ai_models)
  then show ?case
    using Cons.IH [of "apply_config_op c x"] by simp
qed

text \<open>
  Claim C8, as amended. A credential error of \<open>enable_real_ai\<close> leaves the whole
  configuration as it was. In a configuration reached from the constructor through the
  public operations, every error the call raises is a credential error, so there the
  call is atomic on error.
\<close>

theorem enable_real_ai_credential_error_atomic:
  "(fst (enable_real_ai p c) = Inl InvalidAPIKeyError \<longrightarrow> snd (enable_real_ai p c) = c) \<and>
   (\<forall>e. fst (enable_real_ai p (run_config_ops (default_config env) ops)) = Inl e \<longrightarrow>
        e = InvalidAPIKeyError \<and>
        snd (enable_real_ai p (run_config_ops (default_config env) ops)) =
          run_config_ops (default_config env) ops)"
  using models_supported_run [OF models_supported_default, of env ops]
  by (simp add: enable_real_ai_eq)

theorem enable_real_ai_credential_error_atomic_witness:
  "fst (enable_real_ai ANTHROPIC (default_config env_openai)) = Inl InvalidAPIKeyError \<and>
   snd (enable_real_ai ANTHROPIC (default_config env_openai)) = default_config env_openai \<and>
   fst (enable_real_ai ANTHROPIC (run_config_ops (default_config env_openai) [EnableRealAI OPENAI]))
     = Inl InvalidAPIKeyError \<and>
   snd (enable_real_ai ANTHROPIC (run_config_ops (default_config env_openai) [EnableRealAI OPENAI]))
     = run_config_ops (default_config env_openai) [EnableRealAI OPENAI]"
proof -
  have a: "fst (enable_real_ai ANTHROPIC (default_config env_openai)) = Inl InvalidAPIKeyError"
    using no_key_env_openai by (simp add: enable_real_ai_eq)
  have "\<not> has_valid_api_key (run_config_ops (default_config env_openai) [EnableRealAI OPENAI]) ANTHROPIC"
    by (simp add: run_config_ops_def enable_real_ai_eq has_valid_api_key_def default_config_def
          env_openai_def)
  then have b: "fst (enable_real_ai ANTHROPIC
                  (run_config_ops (default_config env_openai) [EnableRealAI OPENAI]))
                = Inl InvalidAPIKeyError"
    by (simp add: enable_real_ai_eq)
  show ?thesis
    using enable_real_ai_credential_error_atomic
            [of ANTHROPIC "default_config env_openai" env_openai "[EnableRealAI OPENAI]"] a b
    by blast
qed

text \<open>
  Claim C8 as stated fails where \<open>UnsupportedModelError\<close> is raised: the provider and the
  three flags are assigned before the validation, and they stay assigned.
\<close>

theorem enable_real_ai_not_atomic_on_model_error:
  "fst (enable_real_ai OPENAI unsupported_research_model) = Inl UnsupportedModelError \<and>
   provider unsupported_research_model = SIMULATION \<and>
   provider (snd (enable_real_ai OPENAI unsupported_research_model)) = OPENAI \<and>
   simulation_mode (research_config unsupported_research_model) \<and>
   \<not> simulation_mode (research_config (snd (enable_real_ai OPENAI unsupported_research_model))) \<and>
   simulation_mode (writing_config unsupported_research_model) \<and>
   \<not> simulation_mode (writing_config (snd (enable_real_ai OPENAI unsupported_research_model))) \<and>
   simulation_mode (image_config unsupported_research_model) \<and>
   \<not> simulation_mode (image_config (snd (enable_real_ai OPENAI unsupported_research_model)))"
  using has_valid_unsupported not_supported_unsupported
  by (simp add: enable_real_ai_eq) (simp add: unsupported_research_model_def default_config_def)

text \<open>
  Claim C10. The constructor succeeds, and in every configuration reached from it by
  \<open>enable_real_ai\<close> and \<open>has_valid_api_key\<close> calls each capability's model is its default,
  which is in that capability's allowlist; \<open>enable_real_ai\<close> never raises
  \<open>UnsupportedModelError\<close> there.
\<close>

theorem reachable_models_default:
  "AIConfig_init env = Inr (default_config env) \<and>
   model (research_config (run_config_ops (default_config env) ops)) = Some ''gpt-4-1106-preview'' \<and>
   model (writing_config (run_config_ops (default_config env) ops)) = Some ''gpt-4-1106-preview'' \<and>
   model (image_config (run_config_ops (default_config env) ops)) = Some ''dall-e-3'' \<and>
   ''gpt-4-1106-preview'' \<in> set (SUPPORTED_MODELS ''chat'') \<and>
   ''dall-e-3'' \<in> set (SUPPORTED_MODELS ''image'') \<and>
   models_supported (run_config_ops (default_config env) ops) \<and>
   fst (enable_real_ai p (run_config_ops (default_config env) ops)) \<noteq> Inl UnsupportedModelError"
proof -
  have init: "AIConfig_init env = Inr (default_config env)"
    by (simp add: AIConfig_init_def Let_def validate_configs_simulation default_config_def)
  have sup: "models_supported (run_config_ops (default_config env) ops)"
    by (rule models_supported_run [OF models_supported_default])
  have "fst (enable_real_ai p (run_config_ops (default_config env) ops)) \<noteq> Inl UnsupportedModelError"
    using sup by (simp add: enable_real_ai_eq)
  with init sup show ?thesis
    using run_config_ops_models [of "default_config env" ops]
    by (simp add: default_config_def SUPPORTED_MODELS_def)
qed

theorem reachable_models_default_witness:
  "model (research_config (run_config_ops (default_config env_openai)
       [EnableRealAI ANTHROPIC, HasValidApiKey OPENAI, EnableRealAI OPENAI])) = Some ''gpt-4-1106-preview'' \<and>
   fst (enable_real_ai OPENAI (run_config_ops (default_config env_openai)
       [EnableRealAI ANTHROPIC, HasValidApiKey OPENAI, EnableRealAI OPENAI])) = Inr ()"
proof -
  have "has_valid_api_key (run_config_ops (default_config env_openai)
       [EnableRealAI ANTHROPIC, HasValidApiKey OPENAI, EnableRealAI OPENAI]) OPENAI"
    by (simp add: run_config_ops_def enable_real_ai_eq has_valid_api_key_def default_config_def
          env_openai_def startswith_def)
  then show ?thesis
    using reachable_models_default [of env_openai
            "[EnableRealAI ANTHROPIC, HasValidApiKey OPENAI, EnableRealAI OPENAI]" OPENAI]
    by (simp add: enable_real_ai_eq)
qed

section \<open>Properties of the text primitives and the templater\<close>

lemma isspace_Char:
  "isspace (Char b0 b1 b2 b3 b4 b5 b6 b7) =
     (if b7 then \<not> b6 \<and> \<not> b4 \<and> \<not> b3 \<and> \<not> b1 \<and> (if b5 then \<not> b2 \<and> \<not> b0 else b2 \<and> b0)
      else \<not> b6 \<and>
        (if b5 then \<not> b4 \<and> \<not> b3 \<and> \<not> b2 \<and> \<not> b1 \<and> \<not> b0
         else if b4 then b3 \<and> b2
         else b3 \<and> (if b2 then \<not> b1 else b1 \<or> b0)))"
  by (cases b0; cases b1; cases b2; cases b3; cases b4; cases b5; cases b6; cases b7)
     (simp_all add: isspace_def)

lemma count_from_eval:
  "count_from False [] n = n"
  "count_from True [] n = Suc n"
  "isspace c \<Longrightarrow> count_from True (c # cs) n = count_from False cs (Suc n)"
  "isspace c \<Longrightarrow> count_from False (c # cs) n = count_from False cs n"
  "\<not> isspace c \<Longrightarrow> count_from inw (c # cs) n = count_from True cs n"
  by simp_all

lemma count_from_Suc: "count_from inw s (Suc n) = Suc (count_from inw s n)"
  by (induction s arbitrary: inw n) auto

lemma length_split_from: "n + length (split_from w s) = count_from (w \<noteq> []) s n"
  by (induction s arbitrary: w n) (auto simp: count_from_Suc)

lemma length_py_split: "length (py_split s) = count_from False s 0"
  using length_split_from [of 0 "[]" s] by (simp add: py_split_def)

lemma article_part_4_words: "length (py_split article_part_4) = 153"
  unfolding length_py_split article_part_4_def text_lines_def
  by (simp only: py_join.simps append.simps count_from_eval isspace_Char simp_thms if_True if_False)

lemma split_from_append_space:
  "isspace c \<Longrightarrow> split_from w (a @ c # b) = split_from w a @ split_from [] b"
  by (induction a arbitrary: w) auto

lemma py_split_append_space:
  "isspace c \<Longrightarrow> py_split (a @ c # b) = py_split a @ py_split (c # b)"
  by (simp add: py_split_def split_from_append_space)

lemma article_part_4_newline: "article_part_4 = CHR 0x0A # tl article_part_4"
  unfolding article_part_4_def text_lines_def
  by (simp only: py_join.simps append.simps list.sel)

lemma isspace_newline: "isspace (CHR 0x0A)"
  by (simp add: isspace_def)

lemma py_split_before_article_part_4:
  "py_split (a @ article_part_4) = py_split a @ py_split article_part_4"
  using py_split_append_space [OF isspace_newline, of a "tl article_part_4"]
        article_part_4_newline by simp

lemma get_enhanced_writing_content_words:
  "153 \<le> length (py_split (get_enhanced_writing_content b))"
proof -
  have "get_enhanced_writing_content b =
          (article_part_1 @ title b @ article_part_2 @ executive_summary b @ article_part_3 @
           concat (map (\<lambda>point. ''<li>'' @ point @ ''</li>'') (key_points b))) @ article_part_4"
    by (simp add: get_enhanced_writing_content_def)
  then show ?thesis
    by (simp only: py_split_before_article_part_4 length_append article_part_4_words)
qed

section \<open>Properties of the capability agents\<close>

lemma get_model_info_simulation [simp]:
  "simulation_mode cfg \<Longrightarrow> get_model_info cfg temp = Inr SimulationInfo"
  by (simp add: get_model_info_def)

lemma get_model_info_no_model [simp]:
  "\<not> simulation_mode cfg \<Longrightarrow> model cfg = None \<Longrightarrow> get_model_info cfg temp = Inl TypeError"
  by (simp add: get_model_info_def)

lemma get_model_info_model:
  "model cfg \<noteq> None \<Longrightarrow> \<exists>i. get_model_info cfg temp = Inr i"
  by (auto simp: get_model_info_def)

lemma run_config_ops_default_models:
  "model (research_config (run_config_ops (default_config env) ops)) \<noteq> None \<and>
   model (writing_config (run_config_ops (default_config env) ops)) \<noteq> None \<and>
   model (image_config (run_config_ops (default_config env) ops)) \<noteq> None"
  by (simp add: run_config_ops_models default_config_def)

lemma py_strip_no_space: "s \<noteq> [] \<Longrightarrow> \<not> isspace (hd s) \<Longrightarrow> \<not> isspace (last s) \<Longrightarrow> py_strip s = s"
proof -
  assume a: "s \<noteq> []" "\<not> isspace (hd s)" "\<not> isspace (last s)"
  then have "dropWhile isspace s = s"
    by (cases s) simp_all
  moreover have "dropWhile isspace (rev s) = rev s"
    using a by (cases "rev s") (simp_all add: hd_rev)
  ultimately show ?thesis
    by (simp add: py_strip_def)
qed

lemma writer_message_ev_valid: "WriterRequest_init writer_message_ev = Inr writer_request_ev"
  by (simp add: WriterRequest_init_def writer_message_ev_def writer_request_ev_def
        py_strip_no_space isspace_def)

lemma image_message_cars_valid:
  "ImageRequest_init image_message_cars =
     Inr \<lparr> prompt = ''electric cars'', style = ''professional'', size_field = ''1024x1024'',
           quality = ''standard'' \<rparr>"
  by (simp add: ImageRequest_init_def image_message_cars_def py_strip_no_space isspace_def)

lemma image_message_solar_valid:
  "ImageRequest_init image_message_solar =
     Inr \<lparr> prompt = ''solar power'', style = ''professional'', size_field = ''1024x1024'',
           quality = ''standard'' \<rparr>"
  by (simp add: ImageRequest_init_def image_message_solar_def py_strip_no_space isspace_def)

lemma real_config_flags:
  "\<not> simulation_mode (research_config real_config) \<and>
   \<not> simulation_mode (writing_config real_config) \<and>
   \<not> simulation_mode (image_config real_config)"
  using has_valid_env_openai by (simp add: real_config_def enable_real_ai_eq)

lemma research_message_ev_valid:
  "ResearchRequest_init research_message_ev = Inr \<lparr> topic = ''Electric Vehicles'', depth = 1 \<rparr>"
  by (simp add: ResearchRequest_init_def research_message_ev_def)

lemma too_short_words: "length (py_split ''too short'') < 100"
  by (simp add: py_split_def isspace_def)

lemma no_model_config_flags:
  "\<not> simulation_mode (research_config no_model_config) \<and>
   \<not> simulation_mode (writing_config no_model_config) \<and>
   \<not> simulation_mode (image_config no_model_config) \<and>
   model (research_config no_model_config) = None \<and>
   model (writing_config no_model_config) = None \<and>
   model (image_config no_model_config) = None"
  using real_config_flags by (simp add: no_model_config_def)

lemma real_config_models:
  "model (research_config real_config) \<noteq> None \<and>
   model (writing_config real_config) \<noteq> None \<and>
   model (image_config real_config) \<noteq> None"
  using enable_real_ai_models [of OPENAI "default_config env_openai"]
  by (simp add: real_config_def default_config_def)

lemma WriterAgent_response_Inr:
  "WriterAgent_response request art = Inr r \<Longrightarrow>
     article_text r = art \<and> word_count r = int (length (py_split art)) \<and> 100 \<le> word_count r"
  by (auto simp: WriterAgent_response_def WriterResponse_init_def split: if_splits)

lemma WriterAgent_simulation_eq:
  "WriterAgent_simulation request =
     Inr \<lparr> article_text = get_enhanced_writing_content request,
           used_keywords = keyword_list request,
           word_count = int (length (py_split (get_enhanced_writing_content request))),
           writing_style = tone request \<rparr>"
  using get_enhanced_writing_content_words [of request]
  by (simp add: WriterAgent_simulation_def WriterAgent_response_def WriterResponse_init_def)

lemma WriterAgent_try_real_Some:
  "WriterAgent_try_real c ctor_ok api a request = (Inr (Some r), a') \<Longrightarrow>
     \<exists>art. WriterAgent_response request art = Inr r"
  by (auto simp: WriterAgent_try_real_def split: prod.splits sum.splits if_splits option.splits)

lemma WriterAgent_process_cases:
  assumes "WriterRequest_init message = Inr request"
      and "simulation_mode (writing_config c) \<or> model (writing_config c) \<noteq> None"
  shows "fst (WriterAgent_process c ctor_ok api a message) = WriterAgent_simulation request \<or>
         (\<exists>art r. WriterAgent_response request art = Inr r \<and>
                  fst (WriterAgent_process c ctor_ok api a message) = Inr r)"
proof (cases "simulation_mode (writing_config c)")
  case True
  with assms show ?thesis by (simp add: WriterAgent_process_def)
next
  case False
  with assms(2) have "model (writing_config c) \<noteq> None"
    by simp
  then obtain i where
    i: "get_model_info (writing_config c) (Some (temperature (writing_config c))) = Inr i"
    using get_model_info_model by blast
  obtain res a' where t: "WriterAgent_try_real c ctor_ok api a request = (res, a')"
    by (cases "WriterAgent_try_real c ctor_ok api a request")
  show ?thesis
  proof (cases res)
    case (Inl e)
    with assms False t i show ?thesis by (simp add: WriterAgent_process_def)
  next
    case (Inr x)
    show ?thesis
    proof (cases x)
      case None
      with assms False t i Inr show ?thesis by (simp add: WriterAgent_process_def)
    next
      case (Some r)
      with t Inr have "\<exists>art. WriterAgent_response request art = Inr r"
        using WriterAgent_try_real_Some by blast
      with assms False t i Inr Some show ?thesis by (auto simp: WriterAgent_process_def)
    qed
  qed
qed

lemma WriterAgent_process_no_model:
  assumes "WriterRequest_init message = Inr request"
      and "\<not> simulation_mode (writing_config c)" and "model (writing_config c) = None"
  shows "fst (WriterAgent_process c ctor_ok api a message) = Inl TypeError"
  using assms by (simp add: WriterAgent_process_def)

text \<open>
  Claim C5. For every valid writer request, whatever the mode and whatever the API
  does, every result that \<open>process\<close> returns has a \<open>word_count\<close> that is the number of
  white-space-separated words of its \<open>article_text\<close> and is at least 100. \<open>process\<close>
  returns a result in simulation mode and whenever the \<open>model\<close> entry is a string, in
  particular in every configuration reached from the constructor through the public
  operations. Outside simulation mode with the \<open>model\<close> entry \<open>None\<close> the log line raises
  \<open>TypeError\<close> and there is no result.
\<close>

theorem writer_word_count:
  "WriterRequest_init message = Inr request \<Longrightarrow>
     (\<forall>r. fst (WriterAgent_process c ctor_ok api a message) = Inr r \<longrightarrow>
          word_count r = int (length (py_split (article_text r))) \<and> 100 \<le> word_count r) \<and>
     (simulation_mode (writing_config c) \<or> model (writing_config c) \<noteq> None \<longrightarrow>
        (\<exists>r. fst (WriterAgent_process c ctor_ok api a message) = Inr r)) \<and>
     (c = run_config_ops (default_config env) ops \<longrightarrow>
        (\<exists>r. fst (WriterAgent_process c ctor_ok api a message) = Inr r)) \<and>
     (\<not> simulation_mode (writing_config c) \<and> model (writing_config c) = None \<longrightarrow>
        fst (WriterAgent_process c ctor_ok api a message) = Inl TypeError)"
proof -
  assume v: "WriterRequest_init message = Inr request"
  have ok: "\<exists>r. fst (WriterAgent_process c ctor_ok api a message) = Inr r \<and>
               word_count r = int (length (py_split (article_text r))) \<and> 100 \<le> word_count r"
    if m: "simulation_mode (writing_config c) \<or> model (writing_config c) \<noteq> None"
    for c :: ai_config
    using WriterAgent_process_cases [OF v m, of ctor_ok api a]
  proof
    assume "fst (WriterAgent_process c ctor_ok api a message) = WriterAgent_simulation request"
    then show ?thesis
      using get_enhanced_writing_content_words [of request]
      by (simp add: WriterAgent_simulation_eq)
  next
    assume "\<exists>art r. WriterAgent_response request art = Inr r \<and>
                  fst (WriterAgent_process c ctor_ok api a message) = Inr r"
    then show ?thesis
      using WriterAgent_response_Inr by blast
  qed
  have none: "fst (WriterAgent_process c ctor_ok api a message) = Inl TypeError"
    if "\<not> simulation_mode (writing_config c) \<and> model (writing_config c) = None"
    using that v by (simp add: WriterAgent_process_no_model)
  have p1: "\<forall>r. fst (WriterAgent_process c ctor_ok api a message) = Inr r \<longrightarrow>
          word_count r = int (length (py_split (article_text r))) \<and> 100 \<le> word_count r"
  proof (cases "simulation_mode (writing_config c) \<or> model (writing_config c) \<noteq> None")
    case True
    from ok [OF True] show ?thesis by auto
  next
    case False
    then show ?thesis using none by simp
  qed
  have p2: "simulation_mode (writing_config c) \<or> model (writing_config c) \<noteq> None \<longrightarrow>
        (\<exists>r. fst (WriterAgent_process c ctor_ok api a message) = Inr r)"
    using ok by blast
  have p3: "c = run_config_ops (default_config env) ops \<longrightarrow>
        (\<exists>r. fst (WriterAgent_process c ctor_ok api a message) = Inr r)"
    using ok [of "run_config_ops (default_config env) ops"]
          run_config_ops_default_models [of env ops]
    by blast
  from p1 p2 p3 none show ?thesis
    by blast
qed


theorem writer_word_count_witness:
  "WriterRequest_init writer_message_ev = Inr writer_request_ev \<and>
   (\<exists>r. fst (WriterAgent_process (run_config_ops (default_config Map.empty) []) False ApiRaises
              \<lparr> openai_client = False \<rparr> writer_message_ev) = Inr r \<and>
        word_count r = int (length (py_split (article_text r))) \<and>
        100 \<le> word_count r) \<and>
   \<not> simulation_mode (writing_config real_config) \<and>
   model (writing_config real_config) \<noteq> None \<and>
   (\<exists>r. fst (WriterAgent_process real_config True (ApiReturns (Some ''too short''))
              \<lparr> openai_client = False \<rparr> writer_message_ev) = Inr r \<and>
        word_count r = int (length (py_split (article_text r))) \<and>
        100 \<le> word_count r) \<and>
   \<not> simulation_mode (writing_config no_model_config) \<and>
   model (writing_config no_model_config) = None \<and>
   fst (WriterAgent_process no_model_config True ApiRaises \<lparr> openai_client = False \<rparr>
          writer_message_ev) = Inl TypeError"
  using writer_word_count
          [OF writer_message_ev_valid,
           where c = "run_config_ops (default_config Map.empty) []" and env = Map.empty
             and ops = "[]" and ctor_ok = False and api = ApiRaises
             and a = "\<lparr> openai_client = False \<rparr>"]
        writer_word_count
          [OF writer_message_ev_valid,
           where c = real_config and ctor_ok = True and api = "ApiReturns (Some ''too short'')"
             and a = "\<lparr> openai_client = False \<rparr>"]
        writer_word_count
          [OF writer_message_ev_valid,
           where c = no_model_config and ctor_ok = True and api = ApiRaises
             and a = "\<lparr> openai_client = False \<rparr>"]
        writer_message_ev_valid real_config_flags real_config_models no_model_config_flags
  by (simp only: simp_thms) blast


lemma ResearchAgent_process_valid:
  assumes "ResearchRequest_init m = Inr request"
      and "simulation_mode (research_config c) \<or> model (research_config c) \<noteq> None"
  shows "fst (ResearchAgent_process c ctor_ok api a m) =
           Inr (if simulation_mode (research_config c) then get_enhanced_research_content (topic request)
                else case fst (ResearchAgent_try_real c ctor_ok api a request) of
                       Inr (Some r) \<Rightarrow> r
                     | _ \<Rightarrow> get_enhanced_research_content (topic request))"
  using assms get_model_info_model [of "research_config c" "Some (temperature (research_config c))"]
  by (auto simp: ResearchAgent_process_def split: prod.splits sum.splits option.splits)

lemma ResearchAgent_process_no_model:
  assumes "ResearchRequest_init m = Inr request"
      and "\<not> simulation_mode (research_config c)" and "model (research_config c) = None"
  shows "fst (ResearchAgent_process c ctor_ok api a m) = Inl TypeError"
  using assms by (simp add: ResearchAgent_process_def)

lemma ResearchAgent_try_real_fails:
  "(\<not> openai_client a \<and> has_valid_api_key c OPENAI \<and> \<not> ctor_ok) \<or>
   api = ApiRaises \<or> api = ApiReturns NotJSON \<or>
   (\<exists>j e. api = ApiReturns (JSONObject j) \<and> ResearchResponse_init j = Inl e) \<Longrightarrow>
   \<exists>x. fst (ResearchAgent_try_real c ctor_ok api a request) = Inl x \<or>
       fst (ResearchAgent_try_real c ctor_ok api a request) = Inr None"
  by (auto simp: ResearchAgent_try_real_def init_openai_client_def ResearchAgent_call_real_ai_def
           split: prod.splits sum.splits option.splits api_result.splits json_content.splits)

lemma WriterAgent_process_valid:
  assumes "WriterRequest_init m = Inr request"
      and "simulation_mode (writing_config c) \<or> model (writing_config c) \<noteq> None"
  shows "fst (WriterAgent_process c ctor_ok api a m) =
           (if simulation_mode (writing_config c) then WriterAgent_simulation request
            else case fst (WriterAgent_try_real c ctor_ok api a request) of
                   Inr (Some r) \<Rightarrow> Inr r
                 | _ \<Rightarrow> WriterAgent_simulation request)"
  using assms get_model_info_model [of "writing_config c" "Some (temperature (writing_config c))"]
  by (auto simp: WriterAgent_process_def split: prod.splits sum.splits option.splits)

lemma WriterAgent_try_real_fails:
  "(\<not> openai_client a \<and> has_valid_api_key c OPENAI \<and> \<not> ctor_ok) \<or>
   api = ApiRaises \<or> api = ApiReturns None \<or>
   (\<exists>art. api = ApiReturns (Some art) \<and> length (py_split art) < 100) \<Longrightarrow>
   \<exists>x. fst (WriterAgent_try_real c ctor_ok api a request) = Inl x \<or>
       fst (WriterAgent_try_real c ctor_ok api a request) = Inr None"
  by (auto simp: WriterAgent_try_real_def init_openai_client_def WriterAgent_call_real_ai_def
        WriterAgent_response_def WriterResponse_init_def
           split: prod.splits sum.splits option.splits api_result.splits)

lemma ImageAgent_simulation_eq:
  "ImageAgent_simulation req =
     Inr \<lparr> image_data = ''SIMULATED_IMAGE_DATA'', prompt_used = prompt req,
           style_used = style req, dimensions = size_field req \<rparr>"
  by (simp add: ImageAgent_simulation_def ImageResponse_init_def)

lemma ImageAgent_process_valid:
  assumes "ImageRequest_init m = Inr request"
      and "simulation_mode (image_config c) \<or> model (image_config c) \<noteq> None"
  shows "fst (ImageAgent_process c ctor_ok api a m) =
           (if simulation_mode (image_config c) then ImageAgent_simulation request
            else case fst (ImageAgent_try_real c ctor_ok api a request) of
                   Inr (Some r) \<Rightarrow> Inr r
                 | _ \<Rightarrow> ImageAgent_simulation request)"
  using assms get_model_info_model [of "image_config c" None]
  by (auto simp: ImageAgent_process_def split: prod.splits sum.splits option.splits)

lemma ImageAgent_process_no_model:
  assumes "ImageRequest_init m = Inr request"
      and "\<not> simulation_mode (image_config c)" and "model (image_config c) = None"
  shows "fst (ImageAgent_process c ctor_ok api a m) = Inl TypeError"
  using assms by (simp add: ImageAgent_process_def)

lemma ImageAgent_try_real_fails:
  "(\<not> openai_client a \<and> has_valid_api_key c OPENAI \<and> \<not> ctor_ok) \<or>
   api = ApiRaises \<or> api = ApiReturns [] \<or>
   (\<exists>ds. api = ApiReturns (None # ds)) \<Longrightarrow>
   \<exists>x. fst (ImageAgent_try_real c ctor_ok api a request) = Inl x \<or>
       fst (ImageAgent_try_real c ctor_ok api a request) = Inr None"
  by (auto simp: ImageAgent_try_real_def init_openai_client_def ImageAgent_call_real_ai_def
        ImageResponse_init_def
           split: prod.splits sum.splits option.splits api_result.splits list.splits)

lemma ResearchAgent_falls_back:
  "(ResearchRequest_init rm = Inr rreq \<and> \<not> simulation_mode (research_config c) \<longrightarrow>
      (model (research_config c) \<noteq> None \<longrightarrow>
         (\<exists>r. fst (ResearchAgent_process c ctor_ok rapi a rm) = Inr r) \<and>
         (\<forall>e. fst (ResearchAgent_try_real c ctor_ok rapi a rreq) = Inl e \<longrightarrow>
              fst (ResearchAgent_process c ctor_ok rapi a rm) =
                Inr (get_enhanced_research_content (topic rreq))) \<and>
         ((\<not> openai_client a \<and> has_valid_api_key c OPENAI \<and> \<not> ctor_ok) \<or>
          rapi = ApiRaises \<or> rapi = ApiReturns NotJSON \<or>
          (\<exists>j e. rapi = ApiReturns (JSONObject j) \<and> ResearchResponse_init j = Inl e) \<longrightarrow>
            fst (ResearchAgent_process c ctor_ok rapi a rm) =
              Inr (get_enhanced_research_content (topic rreq)))) \<and>
      (model (research_config c) = None \<longrightarrow>
         fst (ResearchAgent_process c ctor_ok rapi a rm) = Inl TypeError))"
proof (intro conjI impI)
  assume h: "ResearchRequest_init rm = Inr rreq \<and> \<not> simulation_mode (research_config c)"
  assume n: "model (research_config c) = None"
  from h n show "fst (ResearchAgent_process c ctor_ok rapi a rm) = Inl TypeError"
    by (simp add: ResearchAgent_process_no_model)
next
  assume h: "ResearchRequest_init rm = Inr rreq \<and> \<not> simulation_mode (research_config c)"
  assume n: "model (research_config c) \<noteq> None"
  from h n have v: "fst (ResearchAgent_process c ctor_ok rapi a rm) =
      Inr (case fst (ResearchAgent_try_real c ctor_ok rapi a rreq) of
             Inr (Some r) \<Rightarrow> r
           | _ \<Rightarrow> get_enhanced_research_content (topic rreq))"
    by (simp add: ResearchAgent_process_valid)
  show "\<exists>r. fst (ResearchAgent_process c ctor_ok rapi a rm) = Inr r"
    unfolding v by (simp add: get_model_info_def split: sum.splits option.splits)
  show "\<forall>e. fst (ResearchAgent_try_real c ctor_ok rapi a rreq) = Inl e \<longrightarrow>
              fst (ResearchAgent_process c ctor_ok rapi a rm) =
                Inr (get_enhanced_research_content (topic rreq))"
    unfolding v by (simp add: get_model_info_def)
  assume "(\<not> openai_client a \<and> has_valid_api_key c OPENAI \<and> \<not> ctor_ok) \<or>
          rapi = ApiRaises \<or> rapi = ApiReturns NotJSON \<or>
          (\<exists>j e. rapi = ApiReturns (JSONObject j) \<and> ResearchResponse_init j = Inl e)"
  from ResearchAgent_try_real_fails [OF this, of rreq]
  show "fst (ResearchAgent_process c ctor_ok rapi a rm) =
              Inr (get_enhanced_research_content (topic rreq))"
    unfolding v by (auto simp: get_model_info_def)
qed

lemma WriterAgent_falls_back:
  "(WriterRequest_init wm = Inr wreq \<and> \<not> simulation_mode (writing_config c) \<longrightarrow>
      (model (writing_config c) \<noteq> None \<longrightarrow>
         (\<exists>r. fst (WriterAgent_process c ctor_ok wapi a wm) = Inr r) \<and>
         (\<forall>e. fst (WriterAgent_try_real c ctor_ok wapi a wreq) = Inl e \<longrightarrow>
              fst (WriterAgent_process c ctor_ok wapi a wm) =
                Inr \<lparr> article_text = get_enhanced_writing_content wreq,
                    used_keywords = keyword_list wreq,
                    word_count = int (length (py_split (get_enhanced_writing_content wreq))),
                    writing_style = tone wreq \<rparr>) \<and>
         ((\<not> openai_client a \<and> has_valid_api_key c OPENAI \<and> \<not> ctor_ok) \<or>
          wapi = ApiRaises \<or> wapi = ApiReturns None \<or>
          (\<exists>art. wapi = ApiReturns (Some art) \<and> length (py_split art) < 100) \<longrightarrow>
            fst (WriterAgent_process c ctor_ok wapi a wm) =
              Inr \<lparr> article_text = get_enhanced_writing_content wreq,
                    used_keywords = keyword_list wreq,
                    word_count = int (length (py_split (get_enhanced_writing_content wreq))),
                    writing_style = tone wreq \<rparr>)) \<and>
      (model (writing_config c) = None \<longrightarrow>
         fst (WriterAgent_process c ctor_ok wapi a wm) = Inl TypeError))"
proof (intro conjI impI)
  assume h: "WriterRequest_init wm = Inr wreq \<and> \<not> simulation_mode (writing_config c)"
  assume n: "model (writing_config c) = None"
  from h n show "fst (WriterAgent_process c ctor_ok wapi a wm) = Inl TypeError"
    by (simp add: WriterAgent_process_no_model)
next
  assume h: "WriterRequest_init wm = Inr wreq \<and> \<not> simulation_mode (writing_config c)"
  assume n: "model (writing_config c) \<noteq> None"
  from h n have v: "fst (WriterAgent_process c ctor_ok wapi a wm) =
      (case fst (WriterAgent_try_real c ctor_ok wapi a wreq) of
         Inr (Some r) \<Rightarrow> Inr r
       | _ \<Rightarrow> WriterAgent_simulation wreq)"
    by (simp add: WriterAgent_process_valid)
  show "\<exists>r. fst (WriterAgent_process c ctor_ok wapi a wm) = Inr r"
    unfolding v by (simp add: WriterAgent_simulation_eq split: sum.splits option.splits)
  show "\<forall>e. fst (WriterAgent_try_real c ctor_ok wapi a wreq) = Inl e \<longrightarrow>
              fst (WriterAgent_process c ctor_ok wapi a wm) =
                Inr \<lparr> article_text = get_enhanced_writing_content wreq,
                    used_keywords = keyword_list wreq,
                    word_count = int (length (py_split (get_enhanced_writing_content wreq))),
                    writing_style = tone wreq \<rparr>"
    unfolding v by (simp add: WriterAgent_simulation_eq)
  assume "(\<not> openai_client a \<and> has_valid_api_key c OPENAI \<and> \<not> ctor_ok) \<or>
          wapi = ApiRaises \<or> wapi = ApiReturns None \<or>
          (\<exists>art. wapi = ApiReturns (Some art) \<and> length (py_split art) < 100)"
  from WriterAgent_try_real_fails [OF this, of wreq]
  show "fst (WriterAgent_process c ctor_ok wapi a wm) =
              Inr \<lparr> article_text = get_enhanced_writing_content wreq,
                    used_keywords = keyword_list wreq,
                    word_count = int (length (py_split (get_enhanced_writing_content wreq))),
                    writing_style = tone wreq \<rparr>"
    unfolding v by (auto simp: WriterAgent_simulation_eq)
qed

lemma ImageAgent_falls_back:
  "(ImageRequest_init im = Inr ireq \<and> \<not> simulation_mode (image_config c) \<longrightarrow>
      (model (image_config c) \<noteq> None \<longrightarrow>
         (\<exists>r. fst (ImageAgent_process c ctor_ok iapi a im) = Inr r) \<and>
         (\<forall>e. fst (ImageAgent_try_real c ctor_ok iapi a ireq) = Inl e \<longrightarrow>
              fst (ImageAgent_process c ctor_ok iapi a im) =
                Inr \<lparr> image_data = ''SIMULATED_IMAGE_DATA'', prompt_used = prompt ireq,
                    style_used = style ireq, dimensions = size_field ireq \<rparr>) \<and>
         ((\<not> openai_client a \<and> has_valid_api_key c OPENAI \<and> \<not> ctor_ok) \<or>
          iapi = ApiRaises \<or> iapi = ApiReturns [] \<or> (\<exists>ds. iapi = ApiReturns (None # ds)) \<longrightarrow>
            fst (ImageAgent_process c ctor_ok iapi a im) =
              Inr \<lparr> image_data = ''SIMULATED_IMAGE_DATA'', prompt_used = prompt ireq,
                    style_used = style ireq, dimensions = size_field ireq \<rparr>)) \<and>
      (model (image_config c) = None \<longrightarrow>
         fst (ImageAgent_process c ctor_ok iapi a im) = Inl TypeError))"
proof (intro conjI impI)
  assume h: "ImageRequest_init im = Inr ireq \<and> \<not> simulation_mode (image_config c)"
  assume n: "model (image_config c) = None"
  from h n show "fst (ImageAgent_process c ctor_ok iapi a im) = Inl TypeError"
    by (simp add: ImageAgent_process_no_model)
next
  assume h: "ImageRequest_init im = Inr ireq \<and> \<not> simulation_mode (image_config c)"
  assume n: "model (image_config c) \<noteq> None"
  from h n have v: "fst (ImageAgent_process c ctor_ok iapi a im) =
      (case fst (ImageAgent_try_real c ctor_ok iapi a ireq) of
         Inr (Some r) \<Rightarrow> Inr r
       | _ \<Rightarrow> ImageAgent_simulation ireq)"
    by (simp add: ImageAgent_process_valid)
  show "\<exists>r. fst (ImageAgent_process c ctor_ok iapi a im) = Inr r"
    unfolding v by (simp add: ImageAgent_simulation_eq split: sum.splits option.splits)
  show "\<forall>e. fst (ImageAgent_try_real c ctor_ok iapi a ireq) = Inl e \<longrightarrow>
              fst (ImageAgent_process c ctor_ok iapi a im) =
                Inr \<lparr> image_data = ''SIMULATED_IMAGE_DATA'', prompt_used = prompt ireq,
                    style_used = style ireq, dimensions = size_field ireq \<rparr>"
    unfolding v by (simp add: ImageAgent_simulation_eq)
  assume "(\<not> openai_client a \<and> has_valid_api_key c OPENAI \<and> \<not> ctor_ok) \<or>
          iapi = ApiRaises \<or> iapi = ApiReturns [] \<or> (\<exists>ds. iapi = ApiReturns (None # ds))"
  from ImageAgent_try_real_fails [OF this, of ireq]
  show "fst (ImageAgent_process c ctor_ok iapi a im) =
              Inr \<lparr> image_data = ''SIMULATED_IMAGE_DATA'', prompt_used = prompt ireq,
                    style_used = style ireq, dimensions = size_field ireq \<rparr>"
    unfolding v by (auto simp: ImageAgent_simulation_eq)
qed

text \<open>
  Claim C1. For a valid request outside simulation mode, each of the three agents
  enters its real path whenever the \<open>model\<close> entry of its configuration is a string, and
  then always returns a result: whenever the real path raises (the client cannot be
  constructed, the call raises, the answer is not JSON or is empty, the answer fails the
  response validation), the result is the one of the simulation path, the templater's
  for the research agent and the writer agent, the placeholder for the image agent. The
  one exception that \<open>process\<close> passes on for a valid request is the \<open>TypeError\<close> of its
  log line when the \<open>model\<close> entry is \<open>None\<close>; it is raised before the real path is
  entered, so no failure of the external call reaches the caller.
\<close>

theorem external_failure_falls_back:
  "(ResearchRequest_init rm = Inr rreq \<and> \<not> simulation_mode (research_config c) \<longrightarrow>
      (model (research_config c) \<noteq> None \<longrightarrow>
         (\<exists>r. fst (ResearchAgent_process c ctor_ok rapi a rm) = Inr r) \<and>
         (\<forall>e. fst (ResearchAgent_try_real c ctor_ok rapi a rreq) = Inl e \<longrightarrow>
              fst (ResearchAgent_process c ctor_ok rapi a rm) =
                Inr (get_enhanced_research_content (topic rreq))) \<and>
         ((\<not> openai_client a \<and> has_valid_api_key c OPENAI \<and> \<not> ctor_ok) \<or>
          rapi = ApiRaises \<or> rapi = ApiReturns NotJSON \<or>
          (\<exists>j e. rapi = ApiReturns (JSONObject j) \<and> ResearchResponse_init j = Inl e) \<longrightarrow>
            fst (ResearchAgent_process c ctor_ok rapi a rm) =
              Inr (get_enhanced_research_content (topic rreq)))) \<and>
      (model (research_config c) = None \<longrightarrow>
         fst (ResearchAgent_process c ctor_ok rapi a rm) = Inl TypeError)) \<and>
   (WriterRequest_init wm = Inr wreq \<and> \<not> simulation_mode (writing_config c) \<longrightarrow>
      (model (writing_config c) \<noteq> None \<longrightarrow>
         (\<exists>r. fst (WriterAgent_process c ctor_ok wapi a wm) = Inr r) \<and>
         (\<forall>e. fst (WriterAgent_try_real c ctor_ok wapi a wreq) = Inl e \<longrightarrow>
              fst (WriterAgent_process c ctor_ok wapi a wm) =
                Inr \<lparr> article_text = get_enhanced_writing_content wreq,
                    used_keywords = keyword_list wreq,
                    word_count = int (length (py_split (get_enhanced_writing_content wreq))),
                    writing_style = tone wreq \<rparr>) \<and>
         ((\<not> openai_client a \<and> has_valid_api_key c OPENAI \<and> \<not> ctor_ok) \<or>
          wapi = ApiRaises \<or> wapi = ApiReturns None \<or>
          (\<exists>art. wapi = ApiReturns (Some art) \<and> length (py_split art) < 100) \<longrightarrow>
            fst (WriterAgent_process c ctor_ok wapi a wm) =
              Inr \<lparr> article_text = get_enhanced_writing_content wreq,
                    used_keywords = keyword_list wreq,
                    word_count = int (length (py_split (get_enhanced_writing_content wreq))),
                    writing_style = tone wreq \<rparr>)) \<and>
      (model (writing_config c) = None \<longrightarrow>
         fst (WriterAgent_process c ctor_ok wapi a wm) = Inl TypeError)) \<and>
   (ImageRequest_init im = Inr ireq \<and> \<not> simulation_mode (image_config c) \<longrightarrow>
      (model (image_config c) \<noteq> None \<longrightarrow>
         (\<exists>r. fst (ImageAgent_process c ctor_ok iapi a im) = Inr r) \<and>
         (\<forall>e. fst (ImageAgent_try_real c ctor_ok iapi a ireq) = Inl e \<longrightarrow>
              fst (ImageAgent_process c ctor_ok iapi a im) =
                Inr \<lparr> image_data = ''SIMULATED_IMAGE_DATA'', prompt_used = prompt ireq,
                    style_used = style ireq, dimensions = size_field ireq \<rparr>) \<and>
         ((\<not> openai_client a \<and> has_valid_api_key c OPENAI \<and> \<not> ctor_ok) \<or>
          iapi = ApiRaises \<or> iapi = ApiReturns [] \<or> (\<exists>ds. iapi = ApiReturns (None # ds)) \<longrightarrow>
            fst (ImageAgent_process c ctor_ok iapi a im) =
              Inr \<lparr> image_data = ''SIMULATED_IMAGE_DATA'', prompt_used = prompt ireq,
                    style_used = style ireq, dimensions = size_field ireq \<rparr>)) \<and>
      (model (image_config c) = None \<longrightarrow>
         fst (ImageAgent_process c ctor_ok iapi a im) = Inl TypeError))"
  using ResearchAgent_falls_back [of rm rreq c ctor_ok rapi a]
        WriterAgent_falls_back [of wm wreq c ctor_ok wapi a]
        ImageAgent_falls_back [of im ireq c ctor_ok iapi a]
  by (rule conjI [OF _ conjI])

theorem external_failure_falls_back_witness:
  "ResearchRequest_init research_message_ev = Inr \<lparr> topic = ''Electric Vehicles'', depth = 1 \<rparr> \<and>
   \<not> simulation_mode (research_config real_config) \<and>
   model (research_config real_config) \<noteq> None \<and>
   fst (ResearchAgent_process real_config True ApiRaises \<lparr> openai_client = False \<rparr>
          research_message_ev) = Inr (get_enhanced_research_content ''Electric Vehicles'') \<and>
   WriterRequest_init writer_message_ev = Inr writer_request_ev \<and>
   \<not> simulation_mode (writing_config real_config) \<and>
   model (writing_config real_config) \<noteq> None \<and>
   fst (WriterAgent_process real_config True (ApiReturns (Some ''too short''))
          \<lparr> openai_client = False \<rparr> writer_message_ev) =
     Inr \<lparr> article_text = get_enhanced_writing_content writer_request_ev,
           used_keywords = keyword_list writer_request_ev,
           word_count = int (length (py_split (get_enhanced_writing_content writer_request_ev))),
           writing_style = tone writer_request_ev \<rparr> \<and>
   ImageRequest_init image_message_cars =
     Inr \<lparr> prompt = ''electric cars'', style = ''professional'', size_field = ''1024x1024'',
           quality = ''standard'' \<rparr> \<and>
   \<not> simulation_mode (image_config real_config) \<and>
   model (image_config real_config) \<noteq> None \<and>
   fst (ImageAgent_process real_config True (ApiReturns []) \<lparr> openai_client = False \<rparr>
          image_message_cars) =
     Inr \<lparr> image_data = ''SIMULATED_IMAGE_DATA'', prompt_used = ''electric cars'',
           style_used = ''professional'', dimensions = ''1024x1024'' \<rparr> \<and>
   \<not> simulation_mode (research_config no_model_config) \<and>
   model (research_config no_model_config) = None \<and>
   fst (ResearchAgent_process no_model_config True ApiRaises \<lparr> openai_client = False \<rparr>
          research_message_ev) = Inl TypeError \<and>
   \<not> simulation_mode (writing_config no_model_config) \<and>
   model (writing_config no_model_config) = None \<and>
   fst (WriterAgent_process no_model_config True (ApiReturns (Some ''too short''))
          \<lparr> openai_client = False \<rparr> writer_message_ev) = Inl TypeError \<and>
   \<not> simulation_mode (image_config no_model_config) \<and>
   model (image_config no_model_config) = None \<and>
   fst (ImageAgent_process no_model_config True (ApiReturns []) \<lparr> openai_client = False \<rparr>
          image_message_cars) = Inl TypeError"
  using external_failure_falls_back
          [where rm = research_message_ev
             and rreq = "\<lparr> topic = ''Electric Vehicles'', depth = 1 \<rparr>"
             and c = real_config and ctor_ok = True and a = "\<lparr> openai_client = False \<rparr>"
             and rapi = ApiRaises
             and wm = writer_message_ev and wreq = writer_request_ev
             and wapi = "ApiReturns (Some ''too short'')"
             and im = image_message_cars
             and ireq = "\<lparr> prompt = ''electric cars'', style = ''professional'',
                            size_field = ''1024x1024'', quality = ''standard'' \<rparr>"
             and iapi = "ApiReturns []"]
        external_failure_falls_back
          [where rm = research_message_ev
             and rreq = "\<lparr> topic = ''Electric Vehicles'', depth = 1 \<rparr>"
             and c = no_model_config and ctor_ok = True and a = "\<lparr> openai_client = False \<rparr>"
             and rapi = ApiRaises
             and wm = writer_message_ev and wreq = writer_request_ev
             and wapi = "ApiReturns (Some ''too short'')"
             and im = image_message_cars
             and ireq = "\<lparr> prompt = ''electric cars'', style = ''professional'',
                            size_field = ''1024x1024'', quality = ''standard'' \<rparr>"
             and iapi = "ApiReturns []"]
        research_message_ev_valid writer_message_ev_valid image_message_cars_valid
        real_config_flags real_config_models no_model_config_flags too_short_words
  by simp






lemma ResearchAgent_process_simulation:
  "simulation_mode (research_config c) \<Longrightarrow>
     fst (ResearchAgent_process c ctor_ok api a m) =
       (case ResearchRequest_init m of
          Inl _ \<Rightarrow> Inl ResearchAgentError
        | Inr request \<Rightarrow> Inr (get_enhanced_research_content (topic request)))"
  by (simp add: ResearchAgent_process_def split: sum.splits)

lemma WriterAgent_process_simulation:
  "simulation_mode (writing_config c) \<Longrightarrow>
     fst (WriterAgent_process c ctor_ok api a m) =
       (case WriterRequest_init m of
          Inl _ \<Rightarrow> Inl WriterAgentError
        | Inr request \<Rightarrow> WriterAgent_simulation request)"
  by (simp add: WriterAgent_process_def split: sum.splits)

section \<open>Properties of the templater results\<close>

text \<open>
  Claim C4. The templaters are functions of their argument alone (the source reads no
  state, clock or random source, so nothing else is an argument of the embedding): equal
  topics give equal research results and equal briefs give equal article strings. Seen
  through the agents: in simulation mode two calls of \<open>process\<close> with the same request
  return the same outcome, whatever the credentials, the state of the agent and the
  behaviour of the API are at either call. For a non-empty topic the research result
  has at least four key points and a confidence between 0 and 1.
\<close>

theorem templaters_deterministic:
  "(t = t' \<longrightarrow> get_enhanced_research_content t = get_enhanced_research_content t') \<and>
   (b = b' \<longrightarrow> get_enhanced_writing_content b = get_enhanced_writing_content b') \<and>
   (simulation_mode (research_config c) \<and> simulation_mode (research_config c') \<longrightarrow>
      fst (ResearchAgent_process c ctor_ok rapi a rm) =
      fst (ResearchAgent_process c' ctor_ok' rapi' a' rm)) \<and>
   (simulation_mode (writing_config c) \<and> simulation_mode (writing_config c') \<longrightarrow>
      fst (WriterAgent_process c ctor_ok wapi a wm) =
      fst (WriterAgent_process c' ctor_ok' wapi' a' wm)) \<and>
   (t \<noteq> [] \<longrightarrow>
      4 \<le> length (key_points (get_enhanced_research_content t)) \<and>
      0 \<le> research_confidence (get_enhanced_research_content t) \<and>
      research_confidence (get_enhanced_research_content t) \<le> 1)"
  by (simp add: get_enhanced_research_content_def ResearchAgent_process_simulation
        WriterAgent_process_simulation)

theorem templaters_deterministic_witness:
  "get_enhanced_research_content ''Electric Vehicles'' =
     get_enhanced_research_content ''Electric Vehicles'' \<and>
   get_enhanced_writing_content writer_request_ev = get_enhanced_writing_content writer_request_ev \<and>
   simulation_mode (research_config (default_config env_openai)) \<and>
   simulation_mode (research_config (default_config Map.empty)) \<and>
   fst (ResearchAgent_process (default_config env_openai) True ApiRaises
          \<lparr> openai_client = False \<rparr> research_message_ev) =
   fst (ResearchAgent_process (default_config Map.empty) False (ApiReturns NotJSON)
          \<lparr> openai_client = True \<rparr> research_message_ev) \<and>
   simulation_mode (writing_config (default_config env_openai)) \<and>
   simulation_mode (writing_config (default_config Map.empty)) \<and>
   fst (WriterAgent_process (default_config env_openai) True ApiRaises
          \<lparr> openai_client = False \<rparr> writer_message_ev) =
   fst (WriterAgent_process (default_config Map.empty) False (ApiReturns None)
          \<lparr> openai_client = True \<rparr> writer_message_ev) \<and>
   length (key_points (get_enhanced_research_content ''Electric Vehicles'')) = 5 \<and>
   research_confidence (get_enhanced_research_content ''Electric Vehicles'') = 926 / 1000 \<and>
   4 \<le> length (key_points (get_enhanced_research_content ''Electric Vehicles'')) \<and>
   0 \<le> research_confidence (get_enhanced_research_content ''Electric Vehicles'') \<and>
   research_confidence (get_enhanced_research_content ''Electric Vehicles'') \<le> 1"
proof -
  have sim: "simulation_mode (research_config (default_config env_openai))"
            "simulation_mode (research_config (default_config Map.empty))"
            "simulation_mode (writing_config (default_config env_openai))"
            "simulation_mode (writing_config (default_config Map.empty))"
    by (simp_all add: default_config_def)
  have "''Electric Vehicles'' \<noteq> []"
    by simp
  with sim show ?thesis
    using templaters_deterministic
            [where t = "''Electric Vehicles''" and t' = "''Electric Vehicles''"
               and b = writer_request_ev and b' = writer_request_ev
               and c = "default_config env_openai" and c' = "default_config Map.empty"
               and ctor_ok = True and ctor_ok' = False
               and rapi = ApiRaises and rapi' = "ApiReturns NotJSON"
               and wapi = ApiRaises and wapi' = "ApiReturns None"
               and a = "\<lparr> openai_client = False \<rparr>" and a' = "\<lparr> openai_client = True \<rparr>"
               and rm = research_message_ev and wm = writer_message_ev]
    by (simp add: get_enhanced_research_content_def)
qed

section \<open>Properties of the demo workflow and of the image agent\<close>

lemma generate_simulation_image_take:
  "generate_simulation_image md5 (take 3 kws) = generate_simulation_image md5 kws"
  by (simp add: generate_simulation_image_def)

text \<open>
  Claim C6, as amended. The demo image agent derives its placeholder from the first three
  keywords: the seed of the URL is the first twelve hex digits of the MD5 digest of
  these keywords joined by a space. Lists that agree on their first three entries give
  the identical result, two lists give different URLs exactly when these digest
  prefixes differ, and in simulation mode the demo agent returns this placeholder under
  the simulation label. The image agent of \<open>src/agents/image.py\<close> has no keywords in its
  request; its simulation path returns the fixed literal \<open>SIMULATED_IMAGE_DATA\<close>.
\<close>

theorem simulation_image_from_keywords:
  "(take 3 kws = take 3 kws' \<longrightarrow>
      generate_simulation_image md5 kws = generate_simulation_image md5 kws') \<and>
   image_url (generate_simulation_image md5 kws) =
     ''https://picsum.photos/seed/'' @ take 12 (md5 (py_join '' '' (take 3 kws))) @ ''/800/400'' \<and>
   (image_url (generate_simulation_image md5 kws) = image_url (generate_simulation_image md5 kws')
      \<longleftrightarrow> take 12 (md5 (py_join '' '' (take 3 kws))) = take 12 (md5 (py_join '' '' (take 3 kws')))) \<and>
   (simulation_mode (image_config c) \<longrightarrow>
      Demo_ImageAgent_process c w msg =
        Message_init (generate_simulation_image (md5_hexdigest w) (content msg))
          (Some ''Enhanced Simulation'')) \<and>
   (ImageRequest_init im = Inr req \<and> simulation_mode (image_config c) \<longrightarrow>
      fst (ImageAgent_process c ctor_ok api a im) =
        Inr \<lparr> image_data = ''SIMULATED_IMAGE_DATA'', prompt_used = prompt req,
              style_used = style req, dimensions = size_field req \<rparr>)"
proof (intro conjI impI)
  assume "take 3 kws = take 3 kws'"
  then show "generate_simulation_image md5 kws = generate_simulation_image md5 kws'"
    by (simp add: generate_simulation_image_def)
next
  show "image_url (generate_simulation_image md5 kws) =
     ''https://picsum.photos/seed/'' @ take 12 (md5 (py_join '' '' (take 3 kws))) @ ''/800/400''"
    by (simp add: generate_simulation_image_def Let_def)
next
  show "image_url (generate_simulation_image md5 kws) = image_url (generate_simulation_image md5 kws')
      \<longleftrightarrow> take 12 (md5 (py_join '' '' (take 3 kws))) = take 12 (md5 (py_join '' '' (take 3 kws')))"
    by (simp add: generate_simulation_image_def Let_def)
next
  assume "simulation_mode (image_config c)"
  then show "Demo_ImageAgent_process c w msg =
        Message_init (generate_simulation_image (md5_hexdigest w) (content msg))
          (Some ''Enhanced Simulation'')"
    by (simp add: Demo_ImageAgent_process_def Let_def)
next
  assume "ImageRequest_init im = Inr req \<and> simulation_mode (image_config c)"
  then show "fst (ImageAgent_process c ctor_ok api a im) =
        Inr \<lparr> image_data = ''SIMULATED_IMAGE_DATA'', prompt_used = prompt req,
              style_used = style req, dimensions = size_field req \<rparr>"
    by (simp add: ImageAgent_process_def ImageAgent_simulation_eq)
qed

theorem simulation_image_from_keywords_witness:
  "take 3 [''ev'', ''battery'', ''grid'', ''solar''] = take 3 [''ev'', ''battery'', ''grid'', ''wind''] \<and>
   generate_simulation_image (md5_hexdigest demo_world_offline) [''ev'', ''battery'', ''grid'', ''solar''] =
     generate_simulation_image (md5_hexdigest demo_world_offline) [''ev'', ''battery'', ''grid'', ''wind''] \<and>
   simulation_mode (image_config (default_config env_openai)) \<and>
   Demo_ImageAgent_process (default_config env_openai) demo_world_offline
       (Message_init [''ev'', ''battery'', ''grid'', ''solar''] None) =
     Message_init (generate_simulation_image (md5_hexdigest demo_world_offline)
                     [''ev'', ''battery'', ''grid'', ''solar'']) (Some ''Enhanced Simulation'') \<and>
   fst (ImageAgent_process (default_config env_openai) True ApiRaises \<lparr> openai_client = False \<rparr>
          image_message_cars) =
     Inr \<lparr> image_data = ''SIMULATED_IMAGE_DATA'', prompt_used = ''electric cars'',
           style_used = ''professional'', dimensions = ''1024x1024'' \<rparr>"
  using simulation_image_from_keywords
          [of "[''ev'', ''battery'', ''grid'', ''solar'']" "[''ev'', ''battery'', ''grid'', ''wind'']"
              "md5_hexdigest demo_world_offline" "default_config env_openai" demo_world_offline
              "Message_init [''ev'', ''battery'', ''grid'', ''solar''] None" image_message_cars
              "\<lparr> prompt = ''electric cars'', style = ''professional'', size_field = ''1024x1024'',
                 quality = ''standard'' \<rparr>" True ApiRaises "\<lparr> openai_client = False \<rparr>"]
        image_message_cars_valid
  by (simp add: default_config_def Message_init_def)

text \<open>
  Counterexample for C6 as stated: the simulation path of \<open>ImageAgent.process\<close> in
  \<open>src/agents/image.py\<close> answers two different requests with the same literal constant.
\<close>

theorem image_agent_placeholder_is_constant:
  "fst (ImageAgent_process (default_config env_openai) True ApiRaises \<lparr> openai_client = False \<rparr>
          image_message_cars) =
     Inr \<lparr> image_data = ''SIMULATED_IMAGE_DATA'', prompt_used = ''electric cars'',
           style_used = ''professional'', dimensions = ''1024x1024'' \<rparr> \<and>
   fst (ImageAgent_process (default_config env_openai) True ApiRaises \<lparr> openai_client = False \<rparr>
          image_message_solar) =
     Inr \<lparr> image_data = ''SIMULATED_IMAGE_DATA'', prompt_used = ''solar power'',
           style_used = ''professional'', dimensions = ''1024x1024'' \<rparr>"
  by (simp add: ImageAgent_process_def image_message_cars_valid image_message_solar_valid
        ImageAgent_simulation_eq default_config_def)

text \<open>
  In the demo agent, keyword lists that differ in their first three entries can still
  join to the same text, and then their placeholders are equal for every digest.
\<close>

lemma joined_keywords_collide:
  "take 3 [''a b''] \<noteq> take 3 [''a'', ''b''] \<and>
   generate_simulation_image md5 [''a b''] = generate_simulation_image md5 [''a'', ''b'']"
  by (simp add: generate_simulation_image_def)

lemma html_part_4_end: "\<exists>pre. html_part_4 = pre @ ''<li>Research Analysis: ''"
  unfolding html_part_4_def text_lines_def
  by (rule exI [of _ \<open>text_lines
       [''"'',
        ''                 class="header-image">'',
        ''            '',
        ''            <div class="ai-attribution">'',
        (''                <h4>'' @ robot_face @ '' AI Model Attribution</h4>''),
        ''                <p>This content was generated using multiple AI models:</p>'',
        ''                <ul>'',
        ''                    '']\<close>])
     (simp only: text_lines_def py_join.simps append.simps append_assoc)

lemma html_part_5_ends: "\<exists>mid. html_part_5 = ''</li>'' @ mid @ ''<li>Content Generation: ''"
  unfolding html_part_5_def text_lines_def
  by (rule exI [of _ \<open>text_lines
       ['''',
        ''                    '']\<close>])
     (simp only: text_lines_def py_join.simps append.simps append_assoc)

lemma html_part_6_ends: "\<exists>mid. html_part_6 = ''</li>'' @ mid @ ''<li>Image Creation: ''"
  unfolding html_part_6_def text_lines_def
  by (rule exI [of _ \<open>text_lines
       ['''',
        ''                    '']\<close>])
     (simp only: text_lines_def py_join.simps append.simps append_assoc)

lemma html_part_7_start: "\<exists>post. html_part_7 = ''</li>'' @ post"
  unfolding html_part_7_def text_lines_def
  by (rule exI [of _ \<open>text_lines
       ['''',
        ''                </ul>'',
        ''                <p>Content Quality Score: '']\<close>])
     (simp only: text_lines_def py_join.simps append.simps append_assoc)

lemma simulation_stages:
  assumes "simulation_mode (research_config c)" and "simulation_mode (writing_config c)"
      and "simulation_mode (image_config c)"
  shows "OrchestratorAgent_stages c w t =
           (Message_init (get_enhanced_research_content t) (Some ''Enhanced Simulation''),
            Message_init
              \<lparr> article_text = get_enhanced_writing_content (get_enhanced_research_content t),
                used_keywords = keyword_list (get_enhanced_research_content t),
                word_count = int (length (py_split
                               (get_enhanced_writing_content (get_enhanced_research_content t)))),
                writing_style = ''professional'' \<rparr>
              (Some ''Enhanced Simulation''),
            Message_init
              (generate_simulation_image (md5_hexdigest w)
                 (keyword_list (get_enhanced_research_content t)))
              (Some ''Enhanced Simulation''))"
  using assms
  by (simp add: OrchestratorAgent_stages_def Demo_ResearchAgent_process_def
        Demo_WriterAgent_process_def Demo_ImageAgent_process_def Let_def Message_init_def)

lemma create_enhanced_html_title:
  "sublist (title (content r)) (create_enhanced_html w r wr img)"
  unfolding create_enhanced_html_def by (rule sublist_appendI)

lemma sublist_trans': "sublist xs ys \<Longrightarrow> sublist ys zs \<Longrightarrow> sublist xs zs"
  by (auto simp: sublist_def) (metis append.assoc)

lemma create_enhanced_html_labels:
  "sublist (''<li>Research Analysis: '' @ py_str (model_used r) @ ''</li>'')
     (create_enhanced_html w r wr img) \<and>
   sublist (''<li>Content Generation: '' @ py_str (model_used wr) @ ''</li>'')
     (create_enhanced_html w r wr img) \<and>
   sublist (''<li>Image Creation: '' @ py_str (model_used img) @ ''</li>'')
     (create_enhanced_html w r wr img)"
proof -
  obtain pre4 where p4: "html_part_4 = pre4 @ ''<li>Research Analysis: ''"
    using html_part_4_end by blast
  obtain mid5 where p5: "html_part_5 = ''</li>'' @ mid5 @ ''<li>Content Generation: ''"
    using html_part_5_ends by blast
  obtain mid6 where p6: "html_part_6 = ''</li>'' @ mid6 @ ''<li>Image Creation: ''"
    using html_part_6_ends by blast
  obtain post7 where p7: "html_part_7 = ''</li>'' @ post7"
    using html_part_7_start by blast
  define A where "A = html_part_1 @ title (content r) @ html_part_2 @ image_url (content img) @
     html_part_3 @ alt_text (content img)"
  define B where "B = format_1f w (research_confidence (content r) * 100) @
     html_part_8 @ title (content r) @
     html_part_9 @ executive_summary (content r) @
     html_part_10 @
     concat (map (\<lambda>point. ''<li>'' @ point @ ''</li>'') (key_points (content r))) @
     html_part_11 @ article_text (content wr) @
     html_part_12 @ methodology (content r) @
     html_part_13 @ now_text w @
     html_part_14 @ py_join '', '' (keyword_list (content r)) @
     html_part_15"
  have doc: "create_enhanced_html w r wr img =
     A @ html_part_4 @ py_str (model_used r) @ html_part_5 @ py_str (model_used wr) @
     html_part_6 @ py_str (model_used img) @ html_part_7 @ B"
    unfolding create_enhanced_html_def A_def B_def by (simp only: append_assoc)
  have 1: "create_enhanced_html w r wr img =
     (A @ pre4) @ (''<li>Research Analysis: '' @ py_str (model_used r) @ ''</li>'') @
     (mid5 @ ''<li>Content Generation: '' @ py_str (model_used wr) @ html_part_6 @
      py_str (model_used img) @ html_part_7 @ B)"
    unfolding doc p4 p5 by (simp only: append_assoc)
  have 2: "create_enhanced_html w r wr img =
     (A @ html_part_4 @ py_str (model_used r) @ ''</li>'' @ mid5) @
     (''<li>Content Generation: '' @ py_str (model_used wr) @ ''</li>'') @
     (mid6 @ ''<li>Image Creation: '' @ py_str (model_used img) @ html_part_7 @ B)"
    unfolding doc p5 p6 by (simp only: append_assoc)
  have 3: "create_enhanced_html w r wr img =
     (A @ html_part_4 @ py_str (model_used r) @ html_part_5 @ py_str (model_used wr) @
      ''</li>'' @ mid6) @
     (''<li>Image Creation: '' @ py_str (model_used img) @ ''</li>'') @
     (post7 @ B)"
    unfolding doc p6 p7 by (simp only: append_assoc)
  have "sublist (''<li>Research Analysis: '' @ py_str (model_used r) @ ''</li>'')
          (create_enhanced_html w r wr img)"
    by (subst 1) (rule sublist_appendI)
  moreover have "sublist (''<li>Content Generation: '' @ py_str (model_used wr) @ ''</li>'')
          (create_enhanced_html w r wr img)"
    by (subst 2) (rule sublist_appendI)
  moreover have "sublist (''<li>Image Creation: '' @ py_str (model_used img) @ ''</li>'')
          (create_enhanced_html w r wr img)"
    by (subst 3) (rule sublist_appendI)
  ultimately show ?thesis
    by blast
qed

lemma create_enhanced_html_keywords:
  "sublist (py_join '', '' (keyword_list (content r))) (create_enhanced_html w r wr img)"
proof -
  have "\<exists>A. create_enhanced_html w r wr img =
          A @ py_join '', '' (keyword_list (content r)) @ html_part_15"
    unfolding create_enhanced_html_def
    by (rule exI [of _ "html_part_1 @ title (content r) @
     html_part_2 @ image_url (content img) @
     html_part_3 @ alt_text (content img) @
     html_part_4 @ py_str (model_used r) @
     html_part_5 @ py_str (model_used wr) @
     html_part_6 @ py_str (model_used img) @
     html_part_7 @ format_1f w (research_confidence (content r) * 100) @
     html_part_8 @ title (content r) @
     html_part_9 @ executive_summary (content r) @
     html_part_10 @
     concat (map (\<lambda>point. ''<li>'' @ point @ ''</li>'') (key_points (content r))) @
     html_part_11 @ article_text (content wr) @
     html_part_12 @ methodology (content r) @
     html_part_13 @ now_text w @
     html_part_14"]) (simp only: append_assoc)
  then show ?thesis
    by (auto simp: sublist_def)
qed

lemma py_lower_electric: "py_lower ''Electric Vehicles'' = ''electric vehicles''"
  by code_simp

text \<open>
  Claim C7. With the three capabilities in simulation mode, the run of the orchestrator
  on the topic \<open>Electric Vehicles\<close> gives the simulation label to each of the three
  stages, a keyword list of six entries, and a document that contains the topic, the
  three attribution lines with the simulation label, and the joined keywords.
\<close>

theorem orchestrator_simulation_run:
  "simulation_mode (research_config c) \<and> simulation_mode (writing_config c) \<and>
   simulation_mode (image_config c) \<longrightarrow>
     (case OrchestratorAgent_stages c w ''Electric Vehicles'' of
        (research_result, writer_result, image_result) \<Rightarrow>
          model_used research_result = Some ''Enhanced Simulation'' \<and>
          model_used writer_result = Some ''Enhanced Simulation'' \<and>
          model_used image_result = Some ''Enhanced Simulation'' \<and>
          keyword_list (content research_result) =
            [''electric vehicles'', ''innovation'', ''market growth'', ''technology'',
             ''digital transformation'', ''strategic analysis''] \<and>
          1 \<le> length (keyword_list (content research_result))) \<and>
     sublist ''Electric Vehicles'' (content (OrchestratorAgent_process c w ''Electric Vehicles'')) \<and>
     sublist ''<li>Research Analysis: Enhanced Simulation</li>''
       (content (OrchestratorAgent_process c w ''Electric Vehicles'')) \<and>
     sublist ''<li>Content Generation: Enhanced Simulation</li>''
       (content (OrchestratorAgent_process c w ''Electric Vehicles'')) \<and>
     sublist ''<li>Image Creation: Enhanced Simulation</li>''
       (content (OrchestratorAgent_process c w ''Electric Vehicles'')) \<and>
     sublist ''electric vehicles, innovation, market growth, technology, digital transformation, strategic analysis''
       (content (OrchestratorAgent_process c w ''Electric Vehicles''))"
proof
  assume sim: "simulation_mode (research_config c) \<and> simulation_mode (writing_config c) \<and>
   simulation_mode (image_config c)"
  define r where "r = Message_init (get_enhanced_research_content ''Electric Vehicles'')
                        (Some ''Enhanced Simulation'')"
  define wr where "wr = Message_init
              \<lparr> article_text = get_enhanced_writing_content (get_enhanced_research_content ''Electric Vehicles''),
                used_keywords = keyword_list (get_enhanced_research_content ''Electric Vehicles''),
                word_count = int (length (py_split
                               (get_enhanced_writing_content (get_enhanced_research_content ''Electric Vehicles'')))),
                writing_style = ''professional'' \<rparr>
              (Some ''Enhanced Simulation'')"
  define img where "img = Message_init
              (generate_simulation_image (md5_hexdigest w)
                 (keyword_list (get_enhanced_research_content ''Electric Vehicles'')))
              (Some ''Enhanced Simulation'')"
  have st: "OrchestratorAgent_stages c w ''Electric Vehicles'' = (r, wr, img)"
    using sim unfolding r_def wr_def img_def by (simp add: simulation_stages)
  have doc: "content (OrchestratorAgent_process c w ''Electric Vehicles'') =
               create_enhanced_html w r wr img"
    by (simp add: OrchestratorAgent_process_def st)
  have lab: "py_str (model_used r) = ''Enhanced Simulation''"
            "py_str (model_used wr) = ''Enhanced Simulation''"
            "py_str (model_used img) = ''Enhanced Simulation''"
    by (simp_all add: r_def wr_def img_def Message_init_def py_str_def)
  have kw: "keyword_list (content r) =
            [''electric vehicles'', ''innovation'', ''market growth'', ''technology'',
             ''digital transformation'', ''strategic analysis'']"
    by (simp add: r_def Message_init_def get_enhanced_research_content_def py_lower_electric)
  have ti: "title (content r) = ''Strategic Analysis: '' @ ''Electric Vehicles''"
    by (simp add: r_def Message_init_def get_enhanced_research_content_def)
  have topic_in: "sublist ''Electric Vehicles'' (create_enhanced_html w r wr img)"
    by (rule sublist_trans' [OF _ create_enhanced_html_title [of r w wr img]])
       (simp only: ti sublist_append_leftI)
  have kws_in: "sublist ''electric vehicles, innovation, market growth, technology, digital transformation, strategic analysis''
                  (create_enhanced_html w r wr img)"
    using create_enhanced_html_keywords [of r w wr img] by (simp add: kw)
  have labels_in:
    "sublist ''<li>Research Analysis: Enhanced Simulation</li>'' (create_enhanced_html w r wr img)"
    "sublist ''<li>Content Generation: Enhanced Simulation</li>'' (create_enhanced_html w r wr img)"
    "sublist ''<li>Image Creation: Enhanced Simulation</li>'' (create_enhanced_html w r wr img)"
    using create_enhanced_html_labels [of r w wr img] by (simp_all add: lab)
  show "(case OrchestratorAgent_stages c w ''Electric Vehicles'' of
        (research_result, writer_result, image_result) \<Rightarrow>
          model_used research_result = Some ''Enhanced Simulation'' \<and>
          model_used writer_result = Some ''Enhanced Simulation'' \<and>
          model_used image_result = Some ''Enhanced Simulation'' \<and>
          keyword_list (content research_result) =
            [''electric vehicles'', ''innovation'', ''market growth'', ''technology'',
             ''digital transformation'', ''strategic analysis''] \<and>
          1 \<le> length (keyword_list (content research_result))) \<and>
     sublist ''Electric Vehicles'' (content (OrchestratorAgent_process c w ''Electric Vehicles'')) \<and>
     sublist ''<li>Research Analysis: Enhanced Simulation</li>''
       (content (OrchestratorAgent_process c w ''Electric Vehicles'')) \<and>
     sublist ''<li>Content Generation: Enhanced Simulation</li>''
       (content (OrchestratorAgent_process c w ''Electric Vehicles'')) \<and>
     sublist ''<li>Image Creation: Enhanced Simulation</li>''
       (content (OrchestratorAgent_process c w ''Electric Vehicles'')) \<and>
     sublist ''electric vehicles, innovation, market growth, technology, digital transformation, strategic analysis''
       (content (OrchestratorAgent_process c w ''Electric Vehicles''))"
    unfolding st doc using topic_in kws_in labels_in kw
    by (simp add: r_def wr_def img_def Message_init_def)
qed

theorem orchestrator_simulation_run_witness:
  "simulation_mode (research_config (default_config env_openai)) \<and>
   simulation_mode (writing_config (default_config env_openai)) \<and>
   simulation_mode (image_config (default_config env_openai)) \<and>
   sublist ''Electric Vehicles''
     (content (OrchestratorAgent_process (default_config env_openai) demo_world_offline
        ''Electric Vehicles'')) \<and>
   sublist ''<li>Research Analysis: Enhanced Simulation</li>''
     (content (OrchestratorAgent_process (default_config env_openai) demo_world_offline
        ''Electric Vehicles'')) \<and>
   sublist ''<li>Content Generation: Enhanced Simulation</li>''
     (content (OrchestratorAgent_process (default_config env_openai) demo_world_offline
        ''Electric Vehicles'')) \<and>
   sublist ''<li>Image Creation: Enhanced Simulation</li>''
     (content (OrchestratorAgent_process (default_config env_openai) demo_world_offline
        ''Electric Vehicles''))"
proof -
  have sim: "simulation_mode (research_config (default_config env_openai)) \<and>
             simulation_mode (writing_config (default_config env_openai)) \<and>
             simulation_mode (image_config (default_config env_openai))"
    by (simp add: default_config_def)
  show ?thesis
    using orchestrator_simulation_run [of "default_config env_openai" demo_world_offline] sim
    by blast
qed

section \<open>Properties of the floating-point numbers\<close>

lemma exp2_powi: "exp2 e = 2 powi e"
  by (simp add: exp2_def power_int_def power_one_over inverse_eq_divide)

lemma exp2_pos: "0 < exp2 e"
  by (simp add: exp2_powi)

lemma exp2_mono: "a \<le> b \<Longrightarrow> exp2 a \<le> exp2 b"
  by (simp add: exp2_powi power_int_increasing)


lemma exp2_add: "exp2 (a + b) = exp2 a * exp2 b"
  by (simp add: exp2_powi power_int_add)

lemma exp2_Suc: "exp2 (e + 1) = 2 * exp2 e"
  by (simp add: exp2_powi power_int_add_1)

lemma exp2_diff_nat: "exp2 (int a - int b) = 2 ^ a / 2 ^ b"
  by (simp add: exp2_powi power_int_diff)

lemma ilog2_bounds:
  assumes "0 < x"
  shows "exp2 (ilog2 x) \<le> x \<and> x < exp2 (ilog2 x + 1)"
proof -
  obtain p q where pq: "quotient_of x = (p, q)"
    by (cases "quotient_of x")
  have q: "0 < q"
    using pq by (rule quotient_of_denom_pos)
  have x: "x = of_int p / of_int q"
    using pq by (rule quotient_of_div)
  have p: "0 < p"
    using assms q unfolding x by (simp add: zero_less_divide_iff)
  define bp where "bp = floorlog 2 (nat p)"
  define bq where "bq = floorlog 2 (nat q)"
  define e0 where "e0 = int bp - int bq"
  have "2 ^ (bp - 1) \<le> nat p \<and> nat p < 2 ^ bp"
    unfolding bp_def using p by (intro floorlog_bounds) simp_all
  then have "int (2 ^ (bp - 1)) \<le> p" and "p < int (2 ^ bp)"
    using p by linarith+
  then have "(of_int (int (2 ^ (bp - 1))) :: rat) \<le> of_int p"
        and "(of_int p :: rat) < of_int (int (2 ^ bp))"
    by (simp_all only: of_int_le_iff of_int_less_iff)
  then have pb: "(2::rat) ^ (bp - 1) \<le> of_int p" "of_int p < (2::rat) ^ bp"
    by simp_all
  have "2 ^ (bq - 1) \<le> nat q \<and> nat q < 2 ^ bq"
    unfolding bq_def using q by (intro floorlog_bounds) simp_all
  then have "int (2 ^ (bq - 1)) \<le> q" and "q < int (2 ^ bq)"
    using q by linarith+
  then have "(of_int (int (2 ^ (bq - 1))) :: rat) \<le> of_int q"
        and "(of_int q :: rat) < of_int (int (2 ^ bq))"
    by (simp_all only: of_int_le_iff of_int_less_iff)
  then have qb: "(2::rat) ^ (bq - 1) \<le> of_int q" "of_int q < (2::rat) ^ bq"
    by simp_all
  have "bp \<noteq> 0" and "bq \<noteq> 0"
    unfolding bp_def bq_def using p q by (simp_all add: floorlog_eq_zero_iff)
  then have bp1: "1 \<le> bp" and bq1: "1 \<le> bq"
    by simp_all
  have hp: "(2::rat) ^ bp = 2 * 2 ^ (bp - 1)" and hq: "(2::rat) ^ bq = 2 * 2 ^ (bq - 1)"
    using bp1 bq1 by (simp_all add: power_eq_if)
  have qpos: "(0::rat) < of_int q"
    using q by simp
  have lo: "exp2 (e0 - 1) < x"
  proof -
    have "e0 - 1 = int (bp - 1) - int bq"
      using bp1 unfolding e0_def by simp
    then have "exp2 (e0 - 1) = 2 ^ (bp - 1) / 2 ^ bq"
      by (simp only: exp2_diff_nat)
    also have "\<dots> \<le> of_int p / 2 ^ bq"
      using pb(1) by (simp add: divide_right_mono)
    also have "\<dots> < of_int p / of_int q"
      using qb(2) qpos p by (simp add: divide_strict_left_mono)
    finally show ?thesis
      unfolding x .
  qed
  have hi: "x < exp2 (e0 + 1)"
  proof -
    have "x < 2 ^ bp / of_int q"
      unfolding x using pb(2) qpos by (simp add: divide_strict_right_mono)
    also have "\<dots> \<le> 2 ^ bp / 2 ^ (bq - 1)"
      by (rule frac_le [OF _ order_refl _ qb(1)]) simp_all
    also have "\<dots> = 2 * (2 ^ bp / 2 ^ bq)"
      by (simp add: hq)
    also have "\<dots> = exp2 (e0 + 1)"
      unfolding e0_def by (simp add: exp2_Suc exp2_diff_nat)
    finally show ?thesis .
  qed
  have il: "ilog2 x = (if x < exp2 e0 then e0 - 1 else e0)"
    unfolding ilog2_def pq e0_def bp_def bq_def by (simp add: Let_def)
  show ?thesis
  proof (cases "x < exp2 e0")
    case True
    with lo il show ?thesis by simp
  next
    case False
    with hi il show ?thesis by simp
  qed
qed

lemma ilog2_eqI:
  assumes "0 < x" and "exp2 e \<le> x" and "x < exp2 (e + 1)"
  shows "ilog2 x = e"
proof -
  from ilog2_bounds [OF assms(1)]
  have b: "exp2 (ilog2 x) \<le> x" "x < exp2 (ilog2 x + 1)"
    by simp_all
  have "\<not> ilog2 x < e"
  proof
    assume "ilog2 x < e"
    then have "exp2 (ilog2 x + 1) \<le> exp2 e"
      by (intro exp2_mono) simp
    with b(2) assms(2) show False by simp
  qed
  moreover have "\<not> e < ilog2 x"
  proof
    assume "e < ilog2 x"
    then have "exp2 (e + 1) \<le> exp2 (ilog2 x)"
      by (intro exp2_mono) simp
    with b(1) assms(3) show False by simp
  qed
  ultimately show ?thesis by simp
qed


lemma round_half_even_eqI:
  "of_int m - 1 / 2 < y \<Longrightarrow> y < of_int m + 1 / 2 \<Longrightarrow> round_half_even y = m"
proof -
  assume a: "of_int m - 1 / 2 < y" "y < of_int m + 1 / 2"
  have "\<lfloor>y\<rfloor> = m \<or> \<lfloor>y\<rfloor> = m - 1"
    using a by linarith
  then show ?thesis
  proof
    assume f: "\<lfloor>y\<rfloor> = m"
    then have "y - of_int \<lfloor>y\<rfloor> < 1 / 2"
      using a by simp
    then show ?thesis
      by (simp add: round_half_even_def Let_def f)
  next
    assume f: "\<lfloor>y\<rfloor> = m - 1"
    then have "1 / 2 < y - of_int \<lfloor>y\<rfloor>"
      using a by simp
    then show ?thesis
      by (simp add: round_half_even_def Let_def f)
  qed
qed

lemma round_to_double_normal:
  assumes "0 < x" and "exp2 e \<le> x" and "x < exp2 (e + 1)" and "- 1022 \<le> e"
      and "rnd (x / exp2 (e - 52)) = m" and "of_int m * exp2 (e - 52) < exp2 1024"
  shows "round_to_double rnd x = Finite (of_int m * exp2 (e - 52))"
proof -
  have "ilog2 x = e"
    using assms(1-3) by (rule ilog2_eqI)
  then have "max (ilog2 \<bar>x\<bar>) (- 1022) = e"
    using assms(1,4) by simp
  then show ?thesis
    using assms(1,5,6) by (simp add: round_to_double_def Let_def)
qed

lemma round_to_double_subnormal:
  assumes "0 < x" and "x < exp2 (- 1022)"
      and "rnd (x / exp2 (- 1074)) = m" and "of_int m * exp2 (- 1074) < exp2 1024"
  shows "round_to_double rnd x = Finite (of_int m * exp2 (- 1074))"
proof -
  have "ilog2 x < - 1022"
  proof (rule ccontr)
    assume "\<not> ilog2 x < - 1022"
    then have "exp2 (- 1022) \<le> exp2 (ilog2 x)"
      by (intro exp2_mono) simp
    with ilog2_bounds [OF assms(1)] assms(2) show False by simp
  qed
  then have "max (ilog2 \<bar>x\<bar>) (- 1022) = - 1022"
    using assms(1) by simp
  then show ?thesis
    using assms(1,3,4) by (simp add: round_to_double_def Let_def)
qed

lemma exp2_52: "exp2 e = 2 ^ 52 * exp2 (e - 52)"
proof -
  have "e = 52 + (e - 52)"
    by simp
  then have "exp2 e = exp2 (52 + (e - 52))"
    by (rule arg_cong)
  also have "\<dots> = exp2 52 * exp2 (e - 52)"
    by (rule exp2_add)
  also have "exp2 52 = 2 ^ 52"
    by (simp add: exp2_def)
  finally show ?thesis .
qed


lemma round_half_even_cases:
  "round_half_even y = \<lfloor>y\<rfloor> \<or> round_half_even y = \<lfloor>y\<rfloor> + 1 \<and> of_int \<lfloor>y\<rfloor> < y"
  by (auto simp: round_half_even_def Let_def)

lemma round_half_even_between: "\<lfloor>y\<rfloor> \<le> round_half_even y \<and> round_half_even y \<le> \<lceil>y\<rceil>"
proof -
  have "\<lfloor>y\<rfloor> \<le> \<lceil>y\<rceil>"
    by (rule floor_le_ceiling)
  moreover have "\<lfloor>y\<rfloor> + 1 \<le> \<lceil>y\<rceil>" if "of_int \<lfloor>y\<rfloor> < y"
    using that by (simp add: less_ceiling_iff [symmetric])
  ultimately show ?thesis
    using round_half_even_cases [of y] by auto
qed





lemma to_double_overflow:
  assumes "exp2 1024 \<le> x"
  shows "to_double x = PosInf"
proof -
  have x: "0 < x"
    using assms exp2_pos [of 1024] by linarith
  define e where "e = ilog2 x"
  have eb: "exp2 e \<le> x" "x < exp2 (e + 1)"
    using ilog2_bounds [OF x] by (simp_all add: e_def)
  have e: "1024 \<le> e"
  proof (rule ccontr)
    assume "\<not> 1024 \<le> e"
    then have "exp2 (e + 1) \<le> exp2 1024"
      by (intro exp2_mono) simp
    with assms eb(2) show False by simp
  qed
  then have mx: "max (ilog2 \<bar>x\<bar>) (- 1022) = e"
    using x by (simp add: e_def)
  define q where "q = exp2 (e - 52)"
  have q: "0 < q"
    unfolding q_def by (rule exp2_pos)
  have eq: "exp2 e = 2 ^ 52 * q"
    unfolding q_def by (rule exp2_52)
  have "2 ^ 52 \<le> x / q"
    using eb(1) q unfolding eq by (simp add: pos_le_divide_eq)
  then have "(2 ^ 52 :: int) \<le> \<lfloor>x / q\<rfloor>"
    by (simp add: le_floor_iff)
  then have "2 ^ 52 \<le> round_half_even (x / q)"
    using round_half_even_between [of "x / q"] by linarith
  then have "(of_int (2 ^ 52) :: rat) \<le> of_int (round_half_even (x / q))"
    by (simp only: of_int_le_iff)
  then have "2 ^ 52 * q \<le> of_int (round_half_even (x / q)) * q"
    using q by (intro mult_right_mono) simp_all
  moreover have "exp2 1024 \<le> exp2 e"
    using e by (rule exp2_mono)
  ultimately have "exp2 1024 \<le> of_int (round_half_even (x / q)) * q"
    by (simp add: eq)
  then show ?thesis
    using x unfolding to_double_def round_to_double_def Let_def mx q_def by simp
qed

text \<open>The floats of the numerals and intermediate results that the examples use.\<close>

lemma double_18_5: "to_double (37 / 2) = Finite (37 / 2)"
  unfolding to_double_def
  by (rule round_to_double_normal [where e = "4" and m = 5207287069147136, THEN trans])
     (simp_all add: exp2_def round_half_even_eqI)

lemma double_24_9: "to_double (249 / 10) = Finite (3504363460047667 / 140737488355328)"
  unfolding to_double_def
  by (rule round_to_double_normal [where e = "4" and m = 7008726920095334, THEN trans])
     (simp_all add: exp2_def round_half_even_eqI)

lemma double_29_9: "to_double (299 / 10) = Finite (4208050901824307 / 140737488355328)"
  unfolding to_double_def
  by (rule round_to_double_normal [where e = "4" and m = 8416101803648614, THEN trans])
     (simp_all add: exp2_def round_half_even_eqI)




















lemma double_99_62: "to_double (4981 / 50) = Finite (876266786872361 / 8796093022208)"
  unfolding to_double_def
  by (rule round_to_double_normal [where e = "6" and m = 7010134294978888, THEN trans])
     (simp_all add: exp2_def round_half_even_eqI)

lemma double_2: "to_double (2) = Finite (2)"
  unfolding to_double_def
  by (rule round_to_double_normal [where e = "1" and m = 4503599627370496, THEN trans])
     (simp_all add: exp2_def round_half_even_eqI)

lemma double_4: "to_double (4) = Finite (4)"
  unfolding to_double_def
  by (rule round_to_double_normal [where e = "2" and m = 4503599627370496, THEN trans])
     (simp_all add: exp2_def round_half_even_eqI)

lemma quotient_99_62: "to_double (876266786872361 / 35184372088832) = Finite (876266786872361 / 35184372088832)"
  unfolding to_double_def
  by (rule round_to_double_normal [where e = "4" and m = 7010134294978888, THEN trans])
     (simp_all add: exp2_def round_half_even_eqI)

lemma round_quotient_99_62: "round_half_even (876266786872361 / 35184372088832 * 100) = 2491"
  by (rule round_half_even_eqI) simp_all

lemma double_24_91: "to_double (2491 / 100) = Finite (7011541669862441 / 281474976710656)"
  unfolding to_double_def
  by (rule round_to_double_normal [where e = "4" and m = 7011541669862441, THEN trans])
     (simp_all add: exp2_def round_half_even_eqI)

lemma double_70: "to_double (70) = Finite (70)"
  unfolding to_double_def
  by (rule round_to_double_normal [where e = "6" and m = 4925812092436480, THEN trans])
     (simp_all add: exp2_def round_half_even_eqI)

lemma double_1e_minus_200: "to_double (1 / 100000000000000000000000000000000000000000000000000000000000000000000000000000000000000000000000000000000000000000000000000000000000000000000000000000000000000000000000000000000000000000000000000000000) = Finite (1723641332219371 / 172364133221937103085272756482216056112753534658909761028039668631756215232006744379020625060744018369805777923479247838020220755974022884986972234404720831691332769255536872593544438018353486799545737272878084128768)"
  unfolding to_double_def
  by (rule round_to_double_normal [where e = "- 665" and m = 6894565328877484, THEN trans])
     (simp_all add: exp2_def round_half_even_eqI)

lemma double_1e200: "to_double (100000000000000000000000000000000000000000000000000000000000000000000000000000000000000000000000000000000000000000000000000000000000000000000000000000000000000000000000000000000000000000000000000000000) = Finite (99999999999999996973312221251036165947450327545502362648241750950346848435554075534196338404706251868027512415973882408182135734368278484639385041047239877871023591066789981811181813306167128854888448)"
  unfolding to_double_def
  by (rule round_to_double_normal [where e = "664" and m = 5883593420661338, THEN trans])
     (simp_all add: exp2_def round_half_even_eqI)










section \<open>Properties of the BMI endpoint\<close>




lemma py_truediv_zero: "py_truediv x (Finite 0) = Inl ZeroDivisionError"
  by (simp add: py_truediv_def)


lemma bmi_eq:
  "bmi libm_pow w h =
     (if \<not> py_lt (Finite 0) (py_float w) \<or> \<not> py_lt (Finite 0) (py_float h)
      then Inl ValidationError
      else
        (case py_pow2 libm_pow (py_float h) of
           Inl e \<Rightarrow> Inl e
         | Inr s \<Rightarrow>
             if s = Finite 0 then Inl ZeroDivisionError
             else
               (case py_truediv (py_float w) s of
                  Inl e \<Rightarrow> Inl e
                | Inr q \<Rightarrow>
                    Inr \<lparr> bmi_value = py_round2 q,
                          assessment =
                            (if py_lt (py_round2 q) (to_double (185 / 10)) then ''Underweight''
                             else if py_le (py_round2 q) (to_double (249 / 10)) then ''Normal weight''
                             else if py_le (py_round2 q) (to_double (299 / 10)) then ''Overweight''
                             else ''Obesity'') \<rparr>)))"
  unfolding bmi_def Let_def
  by (simp add: py_truediv_zero split: sum.splits)









text \<open>
  The rounding of the binary format is visible in the answer: weight 99.62 with height
  2 gives 24.91 and \<open>Overweight\<close>, although the exact quotient 24.905 lies in the middle
  between 24.90 and 24.91 and would round to the even 24.90.
\<close>

lemma bmi_binary_rounding:
  "bmi libm_pow_nearest (Finite (9962 / 100)) (Finite 2) =
     Inr \<lparr> bmi_value = to_double (2491 / 100), assessment = ''Overweight'' \<rparr> \<and>
   round_half_even ((9962 / 100) / 2 ^ 2 * 100) = 2490"
proof -
  have w: "py_float (Finite (9962 / 100)) = Finite (876266786872361 / 8796093022208)"
    by (simp add: py_float_def double_99_62)
  have h: "py_float (Finite 2) = Finite 2"
    by (simp add: py_float_def double_2)
  have s: "py_pow2 libm_pow_nearest (Finite 2) = Inr (Finite 4)"
    by (simp add: py_pow2_def libm_pow_nearest_def double_4)
  have q: "py_truediv (Finite (876266786872361 / 8796093022208)) (Finite 4) = Inr (Finite (876266786872361 / 35184372088832))"
    by (simp add: py_truediv_def quotient_99_62)
  have v: "py_round2 (Finite (876266786872361 / 35184372088832)) = Finite (7011541669862441 / 281474976710656)"
    unfolding py_round2_def pyfloat.case round_quotient_99_62 by (simp add: double_24_91)
  have "bmi libm_pow_nearest (Finite (9962 / 100)) (Finite 2) =
     Inr \<lparr> bmi_value = to_double (2491 / 100), assessment = ''Overweight'' \<rparr>"
    unfolding bmi_eq w h
    by (simp add: s q v double_18_5 double_24_9 double_29_9 double_24_91)
  moreover have "round_half_even ((9962 / 100) / 2 ^ 2 * 100) = 2490"
  proof -
    have "\<lfloor>4981 / 2 :: rat\<rfloor> = 2490"
      by (rule floor_unique) simp_all
    then show ?thesis
      by (simp add: round_half_even_def Let_def)
  qed
  ultimately show ?thesis
    by simp
qed

text \<open>
  A height whose square underflows to zero makes the division raise, and one whose
  square overflows makes the power raise.
\<close>

lemma bmi_height_underflow:
  "bmi libm_pow_nearest (Finite 70) (Finite (1 / 10 ^ 200)) = Inl ZeroDivisionError"
proof -
  have w: "py_float (Finite 70) = Finite 70"
    by (simp add: py_float_def double_70)
  have h: "py_float (Finite (1 / 10 ^ 200)) = Finite (1723641332219371 / 172364133221937103085272756482216056112753534658909761028039668631756215232006744379020625060744018369805777923479247838020220755974022884986972234404720831691332769255536872593544438018353486799545737272878084128768)"
    by (simp add: py_float_def double_1e_minus_200)
  have "to_double ((1723641332219371 / 172364133221937103085272756482216056112753534658909761028039668631756215232006744379020625060744018369805777923479247838020220755974022884986972234404720831691332769255536872593544438018353486799545737272878084128768) * (1723641332219371 / 172364133221937103085272756482216056112753534658909761028039668631756215232006744379020625060744018369805777923479247838020220755974022884986972234404720831691332769255536872593544438018353486799545737272878084128768)) = Finite 0"
    unfolding to_double_def
    by (rule round_to_double_subnormal [where m = 0, THEN trans])
       (simp_all add: exp2_def round_half_even_eqI)
  then have s: "py_pow2 libm_pow_nearest (Finite (1723641332219371 / 172364133221937103085272756482216056112753534658909761028039668631756215232006744379020625060744018369805777923479247838020220755974022884986972234404720831691332769255536872593544438018353486799545737272878084128768)) = Inr (Finite 0)"
    by (simp add: py_pow2_def libm_pow_nearest_def)
  show ?thesis
    unfolding bmi_eq w h s by simp
qed

lemma bmi_height_overflow:
  "bmi libm_pow_nearest (Finite 70) (Finite (10 ^ 200)) = Inl OverflowError"
proof -
  have w: "py_float (Finite 70) = Finite 70"
    by (simp add: py_float_def double_70)
  have h: "py_float (Finite (10 ^ 200)) = Finite (99999999999999996973312221251036165947450327545502362648241750950346848435554075534196338404706251868027512415973882408182135734368278484639385041047239877871023591066789981811181813306167128854888448)"
    by (simp add: py_float_def double_1e200)
  have "to_double ((99999999999999996973312221251036165947450327545502362648241750950346848435554075534196338404706251868027512415973882408182135734368278484639385041047239877871023591066789981811181813306167128854888448) * (99999999999999996973312221251036165947450327545502362648241750950346848435554075534196338404706251868027512415973882408182135734368278484639385041047239877871023591066789981811181813306167128854888448)) = PosInf"
    by (rule to_double_overflow) (simp add: exp2_def)
  then have s: "py_pow2 libm_pow_nearest (Finite (99999999999999996973312221251036165947450327545502362648241750950346848435554075534196338404706251868027512415973882408182135734368278484639385041047239877871023591066789981811181813306167128854888448)) = Inl OverflowError"
    by (simp add: py_pow2_def libm_pow_nearest_def)
  show ?thesis
    unfolding bmi_eq w h s by simp
qed







end
